theory Spec2Isabelle
  imports Main "HOL-Library.AList"
begin

section \<open>Text primitives\<close>

text \<open>
  Python \<open>str\<close> values are modelled as HOL strings, read as sequences of code points
  below 256 (Latin-1). The character classes below are the ones Python uses on that range.
\<close>

text \<open>\<open>str.isspace\<close> on one character: TAB..CR, FS..US, space, NEL, NBSP.\<close>

definition isspace :: "char \<Rightarrow> bool" where
  "isspace c = ((of_char c :: nat) \<in> {9, 10, 11, 12, 13, 28, 29, 30, 31, 32, 133, 160})"

text \<open>\<open>str.strip()\<close>: drops leading and trailing whitespace.\<close>

definition strip :: "string \<Rightarrow> string" where
  "strip s = rev (dropWhile isspace (rev (dropWhile isspace s)))"

text \<open>The regular-expression class \<open>\d\<close>: decimal digits.\<close>

definition is_decimal :: "char \<Rightarrow> bool" where
  "is_decimal c = (48 \<le> (of_char c :: nat) \<and> (of_char c :: nat) \<le> 57)"

text \<open>\<open>str.isdigit()\<close>: non-empty, every character a digit; besides the decimal digits
  Python counts the superscripts one, two and three (code points 185, 178, 179).\<close>

definition isdigit :: "string \<Rightarrow> bool" where
  "isdigit s = (s \<noteq> [] \<and> list_all (\<lambda>c. is_decimal c \<or> (of_char c :: nat) \<in> {178, 179, 185}) s)"

text \<open>
  \<open>filters.Regex(r'^\d+$')\<close>: \<open>re.search\<close> of the pattern in the message text. Without
  the MULTILINE flag \<open>^\<close> matches at the start only and \<open>$\<close> at the end or just before a
  final newline.
\<close>

definition regex_digits :: "string \<Rightarrow> bool" where
  "regex_digits s =
     (let t = (if s \<noteq> [] \<and> last s = CHR 0x0A then butlast s else s)
      in t \<noteq> [] \<and> list_all is_decimal t)"

text \<open>The f-string \<open>f"{n}"\<close> of a natural number: its decimal numeral.\<close>

definition digit_char :: "nat \<Rightarrow> char" where
  "digit_char d = char_of (48 + d)"

fun str_nat :: "nat \<Rightarrow> string" where
  "str_nat n = (if n < 10 then [digit_char n] else str_nat (n div 10) @ [digit_char (n mod 10)])"

declare str_nat.simps [simp del]

section \<open>Date and time\<close>

text \<open>
  An aware \<open>datetime\<close> with minute resolution: \<open>wall\<close> is the wall-clock reading in minutes
  (date ordinal times 1440, plus hour times 60, plus minute) and \<open>off\<close> the UTC offset of its
  fixed \<open>tzinfo\<close>, in minutes. \<open>isoformat()\<close> and \<open>fromisoformat()\<close> are inverse to each
  other on these values, so an ISO string is modelled by the value it denotes. Adding a
  \<open>timedelta\<close> moves the wall clock and keeps the \<open>tzinfo\<close>.
\<close>

record datetime =
  wall :: int
  off :: int

definition plus_minutes :: "datetime \<Rightarrow> int \<Rightarrow> datetime" where
  "plus_minutes d m = d\<lparr>wall := wall d + m\<rparr>"

text \<open>
  The last wall-clock minute of the library type, 9999-12-31 23:59 (ordinal 3652059). An
  addition that passes it raises \<open>OverflowError\<close>. The \<open>try\<close> blocks of the two actions are
  modelled with this bound. Every later addition starts from a reading that left a
  \<open>try\<close> block, adds at most 150 minutes, and is modelled by \<open>plus_minutes\<close> without the
  bound.
\<close>

definition wall_max :: int where
  "wall_max = 3652059 * 1440 + 1439"

text \<open>The instant on the UTC time line, in minutes.\<close>

definition instant :: "datetime \<Rightarrow> int" where
  "instant d = wall d - off d"

section \<open>Collaborators and program state\<close>

text \<open>Every request sent to the calendar service or to the classifier is logged.\<close>

datatype call =
    CheckFree datetime datetime
  | Create string datetime datetime
  | Search string
  | Classify string

text \<open>The exceptions of the model.\<close>

datatype error = KeyError | ValueError | OverflowError

text \<open>
  The JSON object the classifier answers with. A field is what \<open>.get\<close> returns for its key:
  \<open>None\<close> for an absent key and for a JSON null, else the string, as the response schema
  has it.
\<close>

record entidades =
  titulo :: "string option"
  data :: "string option"
  hora :: "string option"

record decision =
  d_action :: "string option"
  d_agendamento :: "entidades option"
  d_consulta :: "string option"

text \<open>
  What the outside world answers: \<open>free\<close> is the answer of the free/busy listing (true when
  no event overlaps), \<open>link\<close> the \<open>htmlLink\<close> of a created event, \<open>items\<close> the events found
  for a search word, \<open>gemini\<close> the classifier's decision (\<open>None\<close> when the call fails or
  answers an empty object),
  \<open>strptime\<close> the date ordinal of a \<open>'%Y-%m-%d'\<close> string (\<open>None\<close> for \<open>ValueError\<close>),
  and \<open>localize\<close> the answer of \<open>pytz\<close> for a wall-clock reading in America/Sao\_Paulo:
  the UTC offset it attaches, or the exception it raises (it shifts the reading by a day in
  both directions first, which overflows on the first and on the last day of the date range).
\<close>

record env =
  free :: "datetime \<Rightarrow> datetime \<Rightarrow> bool"
  link :: "string \<Rightarrow> datetime \<Rightarrow> datetime \<Rightarrow> string"
  items :: "string \<Rightarrow> (string \<times> datetime) list"
  gemini :: "string \<Rightarrow> decision option"
  strptime :: "string \<Rightarrow> int option"
  localize :: "int \<Rightarrow> error + int"

text \<open>One entry of \<open>user_context_storage\<close>: a dict with optional keys.\<close>

record context_data =
  action :: "string option"
  summary :: "string option"
  suggestions :: "(string \<times> datetime) list option"
  chosen_time_iso :: "datetime option"

text \<open>The texts sent to the user, one constructor for each message template of the source.\<close>

datatype message =
    MsgSemPalavraChave
  | MsgEventosEncontrados string "(string \<times> datetime) list"
  | MsgNenhumEvento string
  | MsgErroAgendamento
  | MsgAgendado string datetime string
  | MsgOcupadoSugestoes datetime "(nat \<times> datetime) list"
  | MsgOcupadoSemSugestoes
  | MsgErroVerificacao
  | MsgLivre datetime
  | MsgVerifOcupadoSugestoes datetime "(nat \<times> datetime) list"
  | MsgVerifOcupadoSemSugestoes datetime
  | MsgConfirmado string datetime string
  | MsgPedirTitulo
  | MsgOpcaoInvalida
  | MsgNaoProcessado
  | MsgNaoEntendi

text \<open>
  The state a handler runs in: the global \<open>user_context_storage\<close>, the messages sent with
  \<open>context.bot.send_message\<close> and the log of collaborator calls, both oldest first.
\<close>

record world =
  storage :: "int \<rightharpoonup> context_data"
  sent :: "(int \<times> message) list"
  calls :: "call list"

definition send_message :: "int \<Rightarrow> message \<Rightarrow> world \<Rightarrow> world" where
  "send_message chat_id text w = w\<lparr>sent := sent w @ [(chat_id, text)]\<rparr>"

section \<open>Calendar tools\<close>

definition verificar_disponibilidade :: "env \<Rightarrow> datetime \<Rightarrow> datetime \<Rightarrow> world \<Rightarrow> bool \<times> world" where
  "verificar_disponibilidade e start_time end_time w =
     (free e start_time end_time, w\<lparr>calls := calls w @ [CheckFree start_time end_time]\<rparr>)"

definition criar_evento :: "env \<Rightarrow> string \<Rightarrow> datetime \<Rightarrow> datetime \<Rightarrow> world \<Rightarrow> string \<times> world" where
  "criar_evento e summ start_time end_time w =
     (link e summ start_time end_time, w\<lparr>calls := calls w @ [Create summ start_time end_time]\<rparr>)"

text \<open>The loop body of \<open>sugerir_horarios\<close> over the remaining offsets; \<open>acc\<close> is
  \<open>suggestions_iso\<close>.\<close>

fun sugerir_loop :: "env \<Rightarrow> datetime \<Rightarrow> int list \<Rightarrow> datetime list \<Rightarrow> world \<Rightarrow> datetime list \<times> world" where
  "sugerir_loop e start_time_dt [] acc w = (acc, w)"
| "sugerir_loop e start_time_dt (offset # rest) acc w =
     (let new_start_time = plus_minutes start_time_dt offset;
          new_end_time = plus_minutes new_start_time 60;
          (ok, w1) = verificar_disponibilidade e new_start_time new_end_time w
      in sugerir_loop e start_time_dt rest (if ok then acc @ [new_start_time] else acc) w1)"

definition sugerir_horarios :: "env \<Rightarrow> datetime \<Rightarrow> datetime \<Rightarrow> world \<Rightarrow> datetime list \<times> world" where
  "sugerir_horarios e start_time end_time w = sugerir_loop e start_time [30, 60, 90] [] w"

text \<open>
  \<open>normalize_keyword\<close>: \<open>unicodedata.normalize('NFD', keyword)\<close>, then
  \<open>encode('ascii', 'ignore')\<close>, \<open>decode\<close> and \<open>lower()\<close>. The table is the canonical
  decomposition of the Latin-1 letters (base letter, combining mark); every other code
  point below 256 is its own decomposition.
\<close>

definition nfd_table :: "(nat \<times> nat list) list" where
  "nfd_table =
    [(192, [65, 768]), (193, [65, 769]), (194, [65, 770]), (195, [65, 771]), (196, [65, 776]),
     (197, [65, 778]), (199, [67, 807]),
     (200, [69, 768]), (201, [69, 769]), (202, [69, 770]), (203, [69, 776]),
     (204, [73, 768]), (205, [73, 769]), (206, [73, 770]), (207, [73, 776]),
     (209, [78, 771]),
     (210, [79, 768]), (211, [79, 769]), (212, [79, 770]), (213, [79, 771]), (214, [79, 776]),
     (217, [85, 768]), (218, [85, 769]), (219, [85, 770]), (220, [85, 776]), (221, [89, 769]),
     (224, [97, 768]), (225, [97, 769]), (226, [97, 770]), (227, [97, 771]), (228, [97, 776]),
     (229, [97, 778]), (231, [99, 807]),
     (232, [101, 768]), (233, [101, 769]), (234, [101, 770]), (235, [101, 776]),
     (236, [105, 768]), (237, [105, 769]), (238, [105, 770]), (239, [105, 776]),
     (241, [110, 771]),
     (242, [111, 768]), (243, [111, 769]), (244, [111, 770]), (245, [111, 771]), (246, [111, 776]),
     (249, [117, 768]), (250, [117, 769]), (251, [117, 770]), (252, [117, 776]), (253, [121, 769]),
     (255, [121, 776])]"

definition normalize_NFD :: "string \<Rightarrow> nat list" where
  "normalize_NFD s =
     concat (map (\<lambda>c. case map_of nfd_table (of_char c) of Some d \<Rightarrow> d | None \<Rightarrow> [of_char c]) s)"

definition encode_ascii_ignore :: "nat list \<Rightarrow> string" where
  "encode_ascii_ignore cps = map char_of (filter (\<lambda>n. n < 128) cps)"

definition lower_char :: "char \<Rightarrow> char" where
  "lower_char c = (let n = (of_char c :: nat) in if 65 \<le> n \<and> n \<le> 90 then char_of (n + 32) else c)"

definition normalize_keyword :: "string \<Rightarrow> string" where
  "normalize_keyword keyword = map lower_char (encode_ascii_ignore (normalize_NFD keyword))"

text \<open>
  The normalization as the specification words it, one character at a time: a letter with
  a diacritic becomes its base letter, any other character outside ASCII is lost, an ASCII
  character stays; folding the case comes after. The letters are given by their Latin-1
  code ranges.
\<close>

definition spec_strip_diacritic :: "char \<Rightarrow> char option" where
  "spec_strip_diacritic c =
     (let n = (of_char c :: nat) in
      if n < 128 then Some c
      else if 192 \<le> n \<and> n \<le> 197 then Some (CHR ''A'')
      else if n = 199 then Some (CHR ''C'')
      else if 200 \<le> n \<and> n \<le> 203 then Some (CHR ''E'')
      else if 204 \<le> n \<and> n \<le> 207 then Some (CHR ''I'')
      else if n = 209 then Some (CHR ''N'')
      else if 210 \<le> n \<and> n \<le> 214 then Some (CHR ''O'')
      else if 217 \<le> n \<and> n \<le> 220 then Some (CHR ''U'')
      else if n = 221 then Some (CHR ''Y'')
      else if 224 \<le> n \<and> n \<le> 229 then Some (CHR ''a'')
      else if n = 231 then Some (CHR ''c'')
      else if 232 \<le> n \<and> n \<le> 235 then Some (CHR ''e'')
      else if 236 \<le> n \<and> n \<le> 239 then Some (CHR ''i'')
      else if n = 241 then Some (CHR ''n'')
      else if 242 \<le> n \<and> n \<le> 246 then Some (CHR ''o'')
      else if 249 \<le> n \<and> n \<le> 252 then Some (CHR ''u'')
      else if n = 253 \<or> n = 255 then Some (CHR ''y'')
      else None)"

definition spec_normalize :: "string \<Rightarrow> string" where
  "spec_normalize keyword = map lower_char (List.map_filter spec_strip_diacritic keyword)"

definition obter_eventos_por_palavra_chave :: "env \<Rightarrow> string \<Rightarrow> world \<Rightarrow> (string \<times> datetime) list \<times> world" where
  "obter_eventos_por_palavra_chave e keyword w =
     (let clean_keyword = normalize_keyword keyword
      in (items e clean_keyword, w\<lparr>calls := calls w @ [Search clean_keyword]\<rparr>))"

section \<open>Parsing the classifier's entities\<close>

text \<open>Python truthiness of \<open>d.get(key)\<close> for a string entry: absent and empty are false.\<close>

definition falsy :: "string option \<Rightarrow> bool" where
  "falsy x = (x = None \<or> x = Some [])"

text \<open>\<open>s.split(':')\<close>.\<close>

fun split_on :: "char \<Rightarrow> string \<Rightarrow> string list" where
  "split_on sep [] = [[]]"
| "split_on sep (c # cs) =
     (if c = sep then [] # split_on sep cs
      else (case split_on sep cs of p # ps \<Rightarrow> (c # p) # ps | [] \<Rightarrow> [[c]]))"

text \<open>
  \<open>int(s)\<close> on a string: surrounding whitespace is dropped, one sign is allowed, and the
  rest is decimal digits, where single underscores may separate digits. The whitespace
  \<open>int\<close> drops is TAB..CR, space, NEL and NBSP; unlike \<open>str.strip\<close> it does not drop
  FS..US, on which it raises.
\<close>

definition int_space :: "char \<Rightarrow> bool" where
  "int_space c = ((of_char c :: nat) \<in> {9, 10, 11, 12, 13, 32, 133, 160})"

fun no_double_underscore :: "string \<Rightarrow> bool" where
  "no_double_underscore (a # b # cs) = (\<not> (a = CHR ''_'' \<and> b = CHR ''_'') \<and> no_double_underscore (b # cs))"
| "no_double_underscore cs = True"

definition valid_int_body :: "string \<Rightarrow> bool" where
  "valid_int_body b =
     (b \<noteq> [] \<and> list_all (\<lambda>c. is_decimal c \<or> c = CHR ''_'') b \<and> is_decimal (hd b) \<and>
      is_decimal (last b) \<and> no_double_underscore b)"

definition digits_value :: "string \<Rightarrow> nat" where
  "digits_value ds = foldl (\<lambda>a c. 10 * a + (of_char c - 48)) 0 ds"

definition py_int :: "string \<Rightarrow> int option" where
  "py_int s =
     (let t = rev (dropWhile int_space (rev (dropWhile int_space s)));
          neg = (t \<noteq> [] \<and> hd t = CHR ''-'');
          body = (if t \<noteq> [] \<and> (hd t = CHR ''-'' \<or> hd t = CHR ''+'') then tl t else t)
      in if valid_int_body body
         then Some ((if neg then - 1 else 1) * int (digits_value (filter is_decimal body)))
         else None)"

text \<open>\<open>hora, minuto = map(int, entidades["hora"].split(':'))\<close>: exactly two parts, both
  integers, else \<open>ValueError\<close>.\<close>

definition parse_hora :: "string \<Rightarrow> error + (int \<times> int)" where
  "parse_hora s =
     (case map py_int (split_on (CHR '':'') s) of
        [Some h, Some m] \<Rightarrow> Inr (h, m)
      | _ \<Rightarrow> Inl ValueError)"

text \<open>
  The lines both \<open>execute_agendamento\<close> and \<open>execute_verificacao\<close> run on the date and time
  strings: \<open>strptime\<close> of the stripped date, the time split at the colon,
  \<open>datetime.time(hora, minuto)\<close> (which raises outside 0..23 and 0..59), \<open>localize\<close> of the
  combined wall-clock reading, and the end one hour later, which raises when it passes the
  last minute of the range.
\<close>

definition montar_intervalo :: "env \<Rightarrow> string \<Rightarrow> string \<Rightarrow> error + (datetime \<times> datetime)" where
  "montar_intervalo e data_str hora_str =
     (case strptime e (strip data_str) of
        None \<Rightarrow> Inl ValueError
      | Some data_alvo \<Rightarrow>
          (case parse_hora hora_str of
             Inl err \<Rightarrow> Inl err
           | Inr (h, m) \<Rightarrow>
               if 0 \<le> h \<and> h \<le> 23 \<and> 0 \<le> m \<and> m \<le> 59 then
                 (let naive = data_alvo * 1440 + h * 60 + m
                  in case localize e naive of
                       Inl err \<Rightarrow> Inl err
                     | Inr offset \<Rightarrow>
                         (let inicio_com_fuso = \<lparr>wall = naive, off = offset\<rparr>;
                              fim_com_fuso = plus_minutes inicio_com_fuso 60
                          in if wall fim_com_fuso \<le> wall_max then Inr (inicio_com_fuso, fim_com_fuso)
                             else Inl OverflowError))
               else Inl ValueError))"

text \<open>The \<open>try\<close> block of \<open>execute_agendamento\<close>; \<open>Inl\<close> is the exception it catches.\<close>

definition agendamento_try :: "env \<Rightarrow> entidades option \<Rightarrow> error + (string \<times> datetime \<times> datetime)" where
  "agendamento_try e ents =
     (case ents of
        None \<Rightarrow> Inl ValueError
      | Some ent \<Rightarrow>
          if falsy (titulo ent) \<or> falsy (hora ent) then Inl ValueError
          else (case (titulo ent, data ent, hora ent) of
                  (Some resumo, Some d, Some h) \<Rightarrow>
                    (case montar_intervalo e d h of
                       Inl err \<Rightarrow> Inl err
                     | Inr (inicio, fim) \<Rightarrow> Inr (resumo, inicio, fim))
                | _ \<Rightarrow> Inl KeyError))"

text \<open>The \<open>try\<close> block of \<open>execute_verificacao\<close>.\<close>

definition verificacao_try :: "env \<Rightarrow> entidades option \<Rightarrow> error + (datetime \<times> datetime)" where
  "verificacao_try e ents =
     (case ents of
        None \<Rightarrow> Inl ValueError
      | Some ent \<Rightarrow>
          if falsy (data ent) \<or> falsy (hora ent) then Inl ValueError
          else (case (data ent, hora ent) of
                  (Some d, Some h) \<Rightarrow> montar_intervalo e d h
                | _ \<Rightarrow> Inl KeyError))"

section \<open>Actions\<close>

definition execute_consulta :: "env \<Rightarrow> int \<Rightarrow> string option \<Rightarrow> world \<Rightarrow> world" where
  "execute_consulta e chat_id keyword w =
     (case keyword of
        None \<Rightarrow> send_message chat_id MsgSemPalavraChave w
      | Some kw \<Rightarrow>
          if kw = [] then send_message chat_id MsgSemPalavraChave w
          else (let (eventos, w1) = obter_eventos_por_palavra_chave e kw w
                in if eventos \<noteq> [] then send_message chat_id (MsgEventosEncontrados kw eventos) w1
                   else send_message chat_id (MsgNenhumEvento kw) w1))"

text \<open>
  The loop \<open>for i, iso_time in enumerate(sugestoes)\<close> of both actions: it fills the dict
  \<open>suggestion_map\<close> under the key \<open>f"{i + 1}"\<close> and appends to \<open>numbered_suggestions\<close>.
\<close>

fun numerar :: "nat \<Rightarrow> datetime list \<Rightarrow> (string \<times> datetime) list \<Rightarrow> (nat \<times> datetime) list
    \<Rightarrow> (string \<times> datetime) list \<times> (nat \<times> datetime) list" where
  "numerar i [] suggestion_map numbered = (suggestion_map, numbered)"
| "numerar i (iso_time # rest) suggestion_map numbered =
     numerar (i + 1) rest (AList.update (str_nat (i + 1)) iso_time suggestion_map)
       (numbered @ [(i + 1, iso_time)])"

definition execute_agendamento :: "env \<Rightarrow> int \<Rightarrow> entidades option \<Rightarrow> world \<Rightarrow> world" where
  "execute_agendamento e chat_id ents w =
     (case agendamento_try e ents of
        Inl err \<Rightarrow> send_message chat_id MsgErroAgendamento w
      | Inr (resumo, inicio, fim) \<Rightarrow>
          (let (disponivel, w1) = verificar_disponibilidade e inicio fim w
           in if disponivel then
                (let (link_evento, w2) = criar_evento e resumo inicio fim w1
                 in send_message chat_id (MsgAgendado resumo inicio link_evento) w2)
              else
                (let (sugestoes, w2) = sugerir_horarios e inicio fim w1
                 in if sugestoes \<noteq> [] then
                      (let (suggestion_map, numbered) = numerar 0 sugestoes [] [];
                           w3 = w2\<lparr>storage := (storage w2)(chat_id \<mapsto>
                                  \<lparr>action = None, summary = Some resumo,
                                   suggestions = Some suggestion_map, chosen_time_iso = None\<rparr>)\<rparr>
                       in send_message chat_id (MsgOcupadoSugestoes inicio numbered) w3)
                    else send_message chat_id MsgOcupadoSemSugestoes w2)))"

definition execute_verificacao :: "env \<Rightarrow> int \<Rightarrow> entidades option \<Rightarrow> world \<Rightarrow> world" where
  "execute_verificacao e chat_id ents w =
     (case verificacao_try e ents of
        Inl err \<Rightarrow> send_message chat_id MsgErroVerificacao w
      | Inr (inicio, fim) \<Rightarrow>
          (let (disponivel, w1) = verificar_disponibilidade e inicio fim w
           in if disponivel then send_message chat_id (MsgLivre inicio) w1
              else
                (let (sugestoes, w2) = sugerir_horarios e inicio fim w1
                 in if sugestoes \<noteq> [] then
                      (let (suggestion_map, numbered) = numerar 0 sugestoes [] [];
                           w3 = w2\<lparr>storage := (storage w2)(chat_id \<mapsto>
                                  \<lparr>action = Some ''awaiting_time_selection'', summary = None,
                                   suggestions = Some suggestion_map, chosen_time_iso = None\<rparr>)\<rparr>
                       in send_message chat_id (MsgVerifOcupadoSugestoes inicio numbered) w3)
                    else send_message chat_id (MsgVerifOcupadoSemSugestoes inicio) w2)))"

section \<open>Handlers\<close>

text \<open>
  \<open>handle_follow_up\<close> returns its boolean together with the new state; \<open>Inl\<close> is an
  exception that leaves the handler.
\<close>

definition handle_follow_up :: "env \<Rightarrow> int \<Rightarrow> string \<Rightarrow> world \<Rightarrow> error + (bool \<times> world)" where
  "handle_follow_up e chat_id text w =
     (let user_response = strip text
      in case storage w chat_id of
           None \<Rightarrow> Inr (False, w)
         | Some ctx \<Rightarrow>
             if action ctx = Some ''awaiting_time_selection'' \<and> isdigit user_response then
               (case suggestions ctx of
                  None \<Rightarrow> Inl KeyError
                | Some suggs \<Rightarrow>
                    (case map_of suggs user_response of
                       Some chosen_iso_time \<Rightarrow>
                         (case summary ctx of
                            Some summ \<Rightarrow>
                              (let chosen_end_dt = plus_minutes chosen_iso_time 60;
                                   (lnk, w1) = criar_evento e summ chosen_iso_time chosen_end_dt w;
                                   w2 = w1\<lparr>storage := (storage w1)(chat_id := None)\<rparr>
                               in Inr (True, send_message chat_id
                                               (MsgConfirmado summ chosen_iso_time lnk) w2))
                          | None \<Rightarrow>
                              (let w1 = w\<lparr>storage := (storage w)(chat_id \<mapsto>
                                          \<lparr>action = Some ''awaiting_title'', summary = None,
                                           suggestions = None,
                                           chosen_time_iso = Some chosen_iso_time\<rparr>)\<rparr>
                               in Inr (True, send_message chat_id MsgPedirTitulo w1)))
                     | None \<Rightarrow> Inr (True, send_message chat_id MsgOpcaoInvalida w)))
             else Inr (False, w))"

definition analisar_e_decidir_acao_com_gemini :: "env \<Rightarrow> string \<Rightarrow> world \<Rightarrow> decision option \<times> world" where
  "analisar_e_decidir_acao_com_gemini e texto w =
     (gemini e texto, w\<lparr>calls := calls w @ [Classify texto]\<rparr>)"

text \<open>
  Python truthiness of the decision. \<open>None\<close> stands for both false values the function can
  hand back, the \<open>None\<close> of its \<open>except\<close> branch and an empty JSON object; \<open>Some\<close> is a
  non-empty object, true whatever its fields.
\<close>

definition decision_falsy :: "decision option \<Rightarrow> bool" where
  "decision_falsy d = (d = None)"

text \<open>Step 2 of \<open>handle_messages\<close>: the classifier decides, the action runs.\<close>

definition decidir_e_executar :: "env \<Rightarrow> int \<Rightarrow> string \<Rightarrow> world \<Rightarrow> world" where
  "decidir_e_executar e chat_id full_message w =
     (let (dec, w1) = analisar_e_decidir_acao_com_gemini e full_message w
      in if decision_falsy dec then send_message chat_id MsgNaoProcessado w1
         else (case dec of
                 None \<Rightarrow> send_message chat_id MsgNaoProcessado w1
               | Some d \<Rightarrow>
                   if d_action d = Some ''agendar'' then execute_agendamento e chat_id (d_agendamento d) w1
                   else if d_action d = Some ''verificar'' then execute_verificacao e chat_id (d_agendamento d) w1
                   else if d_action d = Some ''consultar'' then execute_consulta e chat_id (d_consulta d) w1
                   else send_message chat_id MsgNaoEntendi w1))"

definition handle_messages :: "env \<Rightarrow> int \<Rightarrow> string \<Rightarrow> world \<Rightarrow> error + world" where
  "handle_messages e chat_id full_message w =
     (case storage w chat_id of
        None \<Rightarrow> Inr (decidir_e_executar e chat_id full_message w)
      | Some ctx \<Rightarrow>
          if action ctx = Some ''awaiting_title'' then
            (case chosen_time_iso ctx of
               None \<Rightarrow> Inl KeyError
             | Some chosen \<Rightarrow>
                 (let chosen_end_dt = plus_minutes chosen 60;
                      (lnk, w1) = criar_evento e full_message chosen chosen_end_dt w;
                      w2 = w1\<lparr>storage := (storage w1)(chat_id := None)\<rparr>
                  in Inr (send_message chat_id (MsgConfirmado full_message chosen lnk) w2)))
          else Inr (decidir_e_executar e chat_id full_message w))"

text \<open>
  The two message handlers are registered in one group, \<open>handle_follow_up\<close> under
  \<open>filters.Regex(r'^\d+$')\<close> first and \<open>handle_messages\<close> under \<open>filters.TEXT\<close> second.
  The application gives an update to the first handler of a group whose filter accepts it
  and to no other handler of that group; what the callback returns plays no part.
  \<open>on_message\<close> is the processing of one text message that is not a command.
\<close>

definition on_message :: "env \<Rightarrow> int \<Rightarrow> string \<Rightarrow> world \<Rightarrow> error + world" where
  "on_message e chat_id text w =
     (if regex_digits text then
        (case handle_follow_up e chat_id text w of
           Inl err \<Rightarrow> Inl err
         | Inr (handled, w1) \<Rightarrow> Inr w1)
      else if text \<noteq> [] then handle_messages e chat_id text w
      else Inr w)"

section \<open>A concrete calendar and classifier\<close>

text \<open>
  10 March 2025, 13:00 in Sao Paulo (UTC-3). The calendar is busy on the slots starting at
  13:00 and 13:30 and free otherwise; the classifier knows three sentences.
\<close>

definition t_1300 :: datetime where
  "t_1300 = \<lparr>wall = 1064621580, off = - 180\<rparr>"

definition lunch_entities :: entidades where
  "lunch_entities = \<lparr>titulo = Some ''lunch'', data = Some ''2025-03-10'', hora = Some ''13:00''\<rparr>"

definition env_busy :: env where
  "env_busy =
     \<lparr>free = (\<lambda>s f. wall s \<noteq> 1064621580 \<and> wall s \<noteq> 1064621610),
      link = (\<lambda>t s f. ''https://calendar.example/event''),
      items = (\<lambda>k. if k = ''almoco'' then [(''Almoco de equipe'', t_1300)] else []),
      gemini = (\<lambda>txt.
         if txt = ''book lunch at 13:00 on 2025-03-10'' then
           Some \<lparr>d_action = Some ''agendar'', d_agendamento = Some lunch_entities, d_consulta = None\<rparr>
         else if txt = ''am I free at 13:00 on 2025-03-10?'' then
           Some \<lparr>d_action = Some ''verificar'',
                 d_agendamento = Some \<lparr>titulo = None, data = Some ''2025-03-10'', hora = Some ''13:00''\<rparr>,
                 d_consulta = None\<rparr>
         else if txt = ''book lunch at 25:00 on 2025-03-10'' then
           Some \<lparr>d_action = Some ''agendar'',
                 d_agendamento = Some \<lparr>titulo = Some ''lunch'', data = Some ''2025-03-10'', hora = Some ''25:00''\<rparr>,
                 d_consulta = None\<rparr>
         else None),
      strptime = (\<lambda>s. if s = ''2025-03-10'' then Some 739320
                      else if s = ''9999-12-31'' then Some 3652059 else None),
      localize = (\<lambda>n. if 2 * 1440 \<le> n \<and> n < 3652059 * 1440 then Inr (- 180) else Inl OverflowError)\<rparr>"

definition w_idle :: world where
  "w_idle = \<lparr>storage = Map.empty, sent = [], calls = []\<rparr>"

text \<open>The entries the two actions store for chat 7 when 13:00 is busy.\<close>

definition ctx_agendar :: context_data where
  "ctx_agendar =
     \<lparr>action = None, summary = Some ''lunch'',
      suggestions = Some [(''1'', plus_minutes t_1300 60), (''2'', plus_minutes t_1300 90)],
      chosen_time_iso = None\<rparr>"

definition ctx_verificar :: context_data where
  "ctx_verificar =
     \<lparr>action = Some ''awaiting_time_selection'', summary = None,
      suggestions = Some [(''1'', plus_minutes t_1300 60), (''2'', plus_minutes t_1300 90)],
      chosen_time_iso = None\<rparr>"

definition ctx_titulo :: context_data where
  "ctx_titulo =
     \<lparr>action = Some ''awaiting_title'', summary = None, suggestions = None,
      chosen_time_iso = Some (plus_minutes t_1300 60)\<rparr>"

text \<open>
  Chat 7 asks to book lunch, or asks whether 13:00 is free, while idle; \<open>w_agendar\<close> and
  \<open>w_verificar\<close> are the states after the one request and after the other, and \<open>w_titulo\<close>
  the state after the reply \<open>"1"\<close> to the second.
\<close>

definition msg_agendar :: string where
  "msg_agendar = ''book lunch at 13:00 on 2025-03-10''"

definition msg_verificar :: string where
  "msg_verificar = ''am I free at 13:00 on 2025-03-10?''"

definition w_agendar :: world where
  "w_agendar = decidir_e_executar env_busy 7 msg_agendar w_idle"

definition w_verificar :: world where
  "w_verificar = decidir_e_executar env_busy 7 msg_verificar w_idle"

definition w_titulo :: world where
  "w_titulo = w_verificar\<lparr>storage := (storage w_verificar)(7 \<mapsto> ctx_titulo),
                          sent := sent w_verificar @ [(7, MsgPedirTitulo)]\<rparr>"

text \<open>
  Entities whose hour is out of range, whose time starts with the file separator (which
  \<open>str.strip\<close> drops and \<open>int\<close> refuses), and whose end would pass the year 9999; a search
  word with a cedilla and one with other accents and a sharp s.
\<close>

definition entities_fs :: entidades where
  "entities_fs = \<lparr>titulo = Some ''lunch'', data = Some ''2025-03-10'',
                  hora = Some (CHR 0x1C # ''13:00'')\<rparr>"

definition entities_9999 :: entidades where
  "entities_9999 = \<lparr>titulo = Some ''lunch'', data = Some ''9999-12-31'', hora = Some ''23:30''\<rparr>"

definition reuniao :: string where
  "reuniao = [CHR ''R'', CHR ''e'', CHR ''u'', CHR ''n'', CHR ''i'', CHR 0xC3, CHR ''O'', CHR '' '',
              CHR ''c'', CHR ''a'', CHR ''f'', CHR 0xE9, CHR '' '', CHR 0xDF]"

definition entities_2500 :: entidades where
  "entities_2500 = \<lparr>titulo = Some ''lunch'', data = Some ''2025-03-10'', hora = Some ''25:00''\<rparr>"

definition almoco :: string where
  "almoco = [CHR ''A'', CHR ''l'', CHR ''m'', CHR ''o'', CHR 0xE7, CHR ''o'']"

section \<open>Slots of one hour\<close>

text \<open>A logged call that carries an interval carries one that ends 60 minutes after its
  start, with the same UTC offset.\<close>

fun call_one_hour :: "call \<Rightarrow> bool" where
  "call_one_hour (CheckFree s f) = (f = plus_minutes s 60)"
| "call_one_hour (Create t s f) = (f = plus_minutes s 60)"
| "call_one_hour (Search k) = True"
| "call_one_hour (Classify t) = True"

section \<open>The suggestion loop and the numbering of suggestions\<close>

lemma sugerir_loop_eq:
  "sugerir_loop e s offs acc w =
     (acc @ map (plus_minutes s)
              (filter (\<lambda>o'. free e (plus_minutes s o') (plus_minutes (plus_minutes s o') 60)) offs),
      w\<lparr>calls := calls w @
           map (\<lambda>o'. CheckFree (plus_minutes s o') (plus_minutes (plus_minutes s o') 60)) offs\<rparr>)"
  by (induction offs arbitrary: acc w) (simp_all add: verificar_disponibilidade_def Let_def)

lemma digits_value_snoc:
  "digits_value (ds @ [c]) = 10 * digits_value ds + (of_char c - 48)"
  by (simp add: digits_value_def)

lemma digits_value_str_nat: "digits_value (str_nat n) = n"
proof (induction n rule: str_nat.induct)
  case (1 n)
  show ?case
  proof (cases "n < 10")
    case True
    then show ?thesis
      by (subst str_nat.simps) (simp add: digits_value_def digit_char_def)
  next
    case False
    have "n mod 10 < 10" by simp
    then have d: "(of_char (digit_char (n mod 10)) :: nat) - 48 = n mod 10"
      by (simp add: digit_char_def)
    from False 1 have "digits_value (str_nat (n div 10)) = n div 10" by simp
    with False d show ?thesis
      by (subst str_nat.simps) (simp add: digits_value_snoc)
  qed
qed

lemma str_nat_inj: "str_nat m = str_nat n \<Longrightarrow> m = n"
  by (metis digits_value_str_nat)

lemma update_fresh: "k \<notin> fst ` set al \<Longrightarrow> AList.update k v al = al @ [(k, v)]"
  by (induction al) auto

lemma numerar_eq:
  "\<forall>j>i. str_nat j \<notin> fst ` set m \<Longrightarrow>
   numerar i xs m nb =
     (m @ zip (map str_nat [i + 1 ..< i + 1 + length xs]) xs,
      nb @ zip [i + 1 ..< i + 1 + length xs] xs)"
proof (induction xs arbitrary: i m nb)
  case Nil
  then show ?case by simp
next
  case (Cons x xs)
  have fresh: "str_nat (i + 1) \<notin> fst ` set m" using Cons.prems by simp
  have next_fresh: "\<forall>j>i + 1. str_nat j \<notin> fst ` set (m @ [(str_nat (i + 1), x)])"
    using Cons.prems str_nat_inj by auto
  have up: "[i + 1 ..< i + 1 + length (x # xs)] = (i + 1) # [i + 1 + 1 ..< i + 1 + 1 + length xs]"
    by (simp add: upt_rec)
  show ?case
    using Cons.IH [OF next_fresh, of "nb @ [(i + 1, x)]"]
    by (simp only: numerar.simps update_fresh [OF fresh] up) simp
qed

lemma sugerir_horarios_eq:
  "sugerir_horarios e s f w =
     (map (plus_minutes s)
        (filter (\<lambda>o'. free e (plus_minutes s o') (plus_minutes (plus_minutes s o') 60)) [30, 60, 90]),
      w\<lparr>calls := calls w @
           map (\<lambda>o'. CheckFree (plus_minutes s o') (plus_minutes (plus_minutes s o') 60)) [30, 60, 90]\<rparr>)"
  unfolding sugerir_horarios_def sugerir_loop_eq by simp

lemma numerar_0:
  "numerar 0 xs [] [] = (zip (map str_nat [1 ..< length xs + 1]) xs, zip [1 ..< length xs + 1] xs)"
  using numerar_eq [of 0 "[]" xs "[]"] by simp

lemma inj_str_nat: "inj str_nat"
  by (rule injI) (rule str_nat_inj)

lemma map_of_labels:
  assumes "i < length xs"
  shows "map_of (zip (map str_nat [1 ..< length xs + 1]) xs) (str_nat (i + 1)) = Some (xs ! i)"
proof -
  let ?ks = "map str_nat [1 ..< length xs + 1]"
  have d: "distinct ?ks"
    using inj_str_nat by (simp only: distinct_map distinct_upt) (blast intro: inj_on_subset)
  have len: "length ?ks = length xs" by (simp del: upt_Suc)
  have "map_of (zip ?ks xs) (?ks ! i) = Some (xs ! i)"
    using len d assms by (rule map_of_zip_nth)
  moreover have "?ks ! i = str_nat (i + 1)"
    using assms by (simp del: upt_Suc)
  ultimately show ?thesis by simp
qed

section \<open>Properties\<close>

text \<open>
  C2. When the target slot of a schedule request is busy, the suggestion operation asks the
  calendar about the slots starting 30, 60 and 90 minutes after the target start, in that
  order and after the check of the target itself, and returns exactly the starts whose
  check answered free, in the same order. The stored suggestion map has the keys
  \<open>"1"\<close>, ..., \<open>"N"\<close> in order, and looking up label \<open>i + 1\<close> gives the \<open>i\<close>-th suggestion.
\<close>

theorem suggest_ordered_dense:
  assumes ok: "agendamento_try e ents = Inr (resumo, inicio, fim)"
    and busy: "\<not> free e inicio fim"
  shows
    "let sugestoes = map (plus_minutes inicio)
           (filter (\<lambda>m. free e (plus_minutes inicio m) (plus_minutes (plus_minutes inicio m) 60))
              [30, 60, 90]);
         w' = execute_agendamento e chat_id ents w
     in fst (sugerir_horarios e inicio fim w) = sugestoes
        \<and> calls w' = calls w @ CheckFree inicio fim #
             map (\<lambda>m. CheckFree (plus_minutes inicio m) (plus_minutes (plus_minutes inicio m) 60))
               [30, 60, 90]
        \<and> (sugestoes \<noteq> [] \<longrightarrow>
             storage w' chat_id =
               Some \<lparr>action = None, summary = Some resumo,
                     suggestions = Some (zip (map str_nat [1 ..< length sugestoes + 1]) sugestoes),
                     chosen_time_iso = None\<rparr>)
        \<and> (\<forall>i < length sugestoes.
             map_of (zip (map str_nat [1 ..< length sugestoes + 1]) sugestoes) (str_nat (i + 1))
               = Some (sugestoes ! i))"
proof -
  define sugestoes where "sugestoes = map (plus_minutes inicio)
           (filter (\<lambda>m. free e (plus_minutes inicio m) (plus_minutes (plus_minutes inicio m) 60))
              [30, 60, 90])"
  define w1 where "w1 = w\<lparr>calls := calls w @ [CheckFree inicio fim]\<rparr>"
  define w2 where "w2 = w1\<lparr>calls := calls w1 @
      map (\<lambda>m. CheckFree (plus_minutes inicio m) (plus_minutes (plus_minutes inicio m) 60))
        [30, 60, 90]\<rparr>"
  have sug: "sugerir_horarios e inicio fim v =
      (sugestoes, v\<lparr>calls := calls v @
         map (\<lambda>m. CheckFree (plus_minutes inicio m) (plus_minutes (plus_minutes inicio m) 60))
           [30, 60, 90]\<rparr>)" for v
    unfolding sugestoes_def by (rule sugerir_horarios_eq)
  have run: "execute_agendamento e chat_id ents w =
      (if sugestoes \<noteq> [] then
         send_message chat_id (MsgOcupadoSugestoes inicio (zip [1 ..< length sugestoes + 1] sugestoes))
           (w2\<lparr>storage := (storage w2)(chat_id \<mapsto>
                 \<lparr>action = None, summary = Some resumo,
                  suggestions = Some (zip (map str_nat [1 ..< length sugestoes + 1]) sugestoes),
                  chosen_time_iso = None\<rparr>)\<rparr>)
       else send_message chat_id MsgOcupadoSemSugestoes w2)"
    unfolding execute_agendamento_def ok
    by (simp only: sum.case prod.case verificar_disponibilidade_def Let_def busy if_False sug [of w1, folded w2_def]
          numerar_0 w1_def [symmetric])
  have c1: "fst (sugerir_horarios e inicio fim w) = sugestoes"
    by (simp only: sug fst_conv)
  have c2: "calls (execute_agendamento e chat_id ents w) = calls w @ CheckFree inicio fim #
             map (\<lambda>m. CheckFree (plus_minutes inicio m) (plus_minutes (plus_minutes inicio m) 60))
               [30, 60, 90]"
    unfolding run by (simp add: send_message_def w2_def w1_def)
  have c3: "sugestoes \<noteq> [] \<longrightarrow>
             storage (execute_agendamento e chat_id ents w) chat_id =
               Some \<lparr>action = None, summary = Some resumo,
                     suggestions = Some (zip (map str_nat [1 ..< length sugestoes + 1]) sugestoes),
                     chosen_time_iso = None\<rparr>"
    unfolding run by (simp add: send_message_def)
  have c4: "\<forall>i < length sugestoes.
             map_of (zip (map str_nat [1 ..< length sugestoes + 1]) sugestoes) (str_nat (i + 1))
               = Some (sugestoes ! i)"
    using map_of_labels by blast
  show ?thesis
    unfolding Let_def sugestoes_def [symmetric] using c1 c2 c3 c4 by (intro conjI)
qed

theorem suggest_ordered_dense_witness:
  "agendamento_try env_busy (Some lunch_entities) = Inr (''lunch'', t_1300, plus_minutes t_1300 60)
   \<and> \<not> free env_busy t_1300 (plus_minutes t_1300 60)
   \<and> fst (sugerir_horarios env_busy t_1300 (plus_minutes t_1300 60) w_idle)
       = [plus_minutes t_1300 60, plus_minutes t_1300 90]
   \<and> storage (execute_agendamento env_busy 7 (Some lunch_entities) w_idle) 7 = Some ctx_agendar"
proof -
  have h1: "agendamento_try env_busy (Some lunch_entities) = Inr (''lunch'', t_1300, plus_minutes t_1300 60)"
    by code_simp
  have h2: "\<not> free env_busy t_1300 (plus_minutes t_1300 60)"
    by code_simp
  have f: "filter (\<lambda>m. free env_busy (plus_minutes t_1300 m) (plus_minutes (plus_minutes t_1300 m) 60))
              [30, 60, 90] = [60, 90]"
    by (simp add: env_busy_def t_1300_def plus_minutes_def)
  have s1: "str_nat 1 = ''1''" and s2: "str_nat 2 = ''2''" by code_simp+
  have u: "[1 ..< length [plus_minutes t_1300 60, plus_minutes t_1300 90] + 1] = [1, 2]"
    by (simp add: upt_rec)
  note t = suggest_ordered_dense [OF h1 h2, of 7 w_idle, unfolded f Let_def list.map u s1 s2]
  from t h1 h2 show ?thesis
    by (simp add: ctx_agendar_def)
qed

text \<open>
  C10. \<open>sugerir_horarios\<close> does not depend on its end-time argument: two calls that differ
  only there return the same suggestions and leave the same state, and every slot it checks
  ends 60 minutes after its own start.
\<close>

theorem sugerir_horarios_ignores_end:
  "sugerir_horarios e start_time end1 w = sugerir_horarios e start_time end2 w
   \<and> calls (snd (sugerir_horarios e start_time end1 w)) =
       calls w @ [CheckFree (plus_minutes start_time 30) (plus_minutes (plus_minutes start_time 30) 60),
                  CheckFree (plus_minutes start_time 60) (plus_minutes (plus_minutes start_time 60) 60),
                  CheckFree (plus_minutes start_time 90) (plus_minutes (plus_minutes start_time 90) 60)]"
  by (simp add: sugerir_horarios_eq)

theorem sugerir_horarios_ignores_end_witness:
  "sugerir_horarios env_busy t_1300 (plus_minutes t_1300 60) w_idle
     = sugerir_horarios env_busy t_1300 (plus_minutes t_1300 1) w_idle"
  using sugerir_horarios_ignores_end [of env_busy t_1300 "plus_minutes t_1300 60" w_idle "plus_minutes t_1300 1"]
  by simp


subsection \<open>Digit replies\<close>

lemma decimal_not_space: "is_decimal c \<Longrightarrow> \<not> isspace c"
  by (auto simp add: is_decimal_def isspace_def)

lemma dropWhile_hd: "xs \<noteq> [] \<Longrightarrow> \<not> P (hd xs) \<Longrightarrow> dropWhile P xs = xs"
  by (cases xs) simp_all

lemma strip_no_space:
  assumes "t \<noteq> []" and "list_all is_decimal t"
  shows "strip t = t" and "strip (t @ [CHR 0x0A]) = t"
proof -
  from assms obtain a u where t: "t = a # u" by (cases t) auto
  from assms have "is_decimal (last t)" by (simp add: list_all_iff)
  then have l: "\<not> isspace (last t)" by (rule decimal_not_space)
  from assms t have "\<not> isspace a" by (simp add: decimal_not_space)
  then have d1: "dropWhile isspace t = t" and d2: "dropWhile isspace (t @ [CHR 0x0A]) = t @ [CHR 0x0A]"
    by (simp_all add: t)
  have "rev t \<noteq> []" and "\<not> isspace (hd (rev t))"
    using assms(1) l by (simp_all add: hd_rev)
  then have d3: "dropWhile isspace (rev t) = rev t" by (rule dropWhile_hd)
  have nl: "isspace (CHR 0x0A)" by (simp add: isspace_def)
  show "strip t = t" by (simp add: strip_def d1 d3)
  show "strip (t @ [CHR 0x0A]) = t" by (simp add: strip_def d2 d3 nl)
qed

lemma regex_digits_isdigit:
  assumes "regex_digits text"
  shows "isdigit (strip text)"
proof (cases "text \<noteq> [] \<and> last text = CHR 0x0A")
  case True
  then have tx: "text = butlast text @ [CHR 0x0A]" by (metis append_butlast_last_id)
  from assms True have "butlast text \<noteq> []" "list_all is_decimal (butlast text)"
    by (simp_all add: regex_digits_def Let_def)
  then have "strip (butlast text @ [CHR 0x0A]) = butlast text" "isdigit (butlast text)"
    by (simp_all add: strip_no_space isdigit_def list_all_iff)
  with tx show ?thesis by simp
next
  case False
  with assms have "text \<noteq> []" "list_all is_decimal text"
    by (auto simp add: regex_digits_def Let_def split: if_splits)
  then show ?thesis by (simp add: strip_no_space isdigit_def list_all_iff)
qed

text \<open>
  C5, as the code has it. A user holds a pending selection that came from a verify request
  (the entry has the action \<open>awaiting_time_selection\<close> and no summary). A reply of digits
  only whose text, once stripped, is itself a key of the stored suggestions (the keys are
  the numerals \<open>"1"\<close>, ..., \<open>"N"\<close>, without leading zeros) replaces the entry by one that
  waits for the title and holds exactly the chosen start, without the suggestions; no
  collaborator is called, so no event is created, and the one message sent asks for the
  title.
\<close>

theorem valid_selection_without_summary:
  assumes "storage w chat_id = Some ctx"
    and "action ctx = Some ''awaiting_time_selection''"
    and "summary ctx = None"
    and "suggestions ctx = Some suggs"
    and "regex_digits text"
    and "map_of suggs (strip text) = Some chosen"
  shows "on_message e chat_id text w =
           Inr (w\<lparr>storage := (storage w)(chat_id \<mapsto>
                     \<lparr>action = Some ''awaiting_title'', summary = None, suggestions = None,
                      chosen_time_iso = Some chosen\<rparr>),
                   sent := sent w @ [(chat_id, MsgPedirTitulo)]\<rparr>)"
  using assms regex_digits_isdigit [OF assms(5)]
  by (simp add: on_message_def handle_follow_up_def send_message_def)

theorem valid_selection_without_summary_witness:
  "on_message env_busy 7 ''2'' (w_idle\<lparr>storage := [7 \<mapsto> ctx_verificar]\<rparr>) =
     Inr \<lparr>storage = [7 \<mapsto> \<lparr>action = Some ''awaiting_title'', summary = None, suggestions = None,
                              chosen_time_iso = Some (plus_minutes t_1300 90)\<rparr>],
          sent = [(7, MsgPedirTitulo)], calls = []\<rparr>"
proof -
  have r: "regex_digits ''2''" by code_simp
  have s: "strip ''2'' = ''2''" by code_simp
  show ?thesis
    using valid_selection_without_summary
      [of "w_idle\<lparr>storage := [7 \<mapsto> ctx_verificar]\<rparr>" 7 ctx_verificar
          "[(''1'', plus_minutes t_1300 60), (''2'', plus_minutes t_1300 90)]" "''2''"
          "plus_minutes t_1300 90" env_busy]
      r s
    by (simp add: w_idle_def ctx_verificar_def)
qed

subsection \<open>Failing requests\<close>

lemma montar_intervalo_failures:
  "strptime e (strip d) = None \<Longrightarrow> montar_intervalo e d h = Inl ValueError"
  "parse_hora h = Inl err \<Longrightarrow> \<exists>err'. montar_intervalo e d h = Inl err'"
  "parse_hora h = Inr (hh, mm) \<Longrightarrow> \<not> (0 \<le> hh \<and> hh \<le> 23 \<and> 0 \<le> mm \<and> mm \<le> 59) \<Longrightarrow>
     \<exists>err'. montar_intervalo e d h = Inl err'"
  by (auto simp add: montar_intervalo_def split: option.splits)

lemma agendamento_try_failures:
  "agendamento_try e None = Inl ValueError"
  "falsy (titulo ent) \<or> falsy (hora ent) \<Longrightarrow> agendamento_try e (Some ent) = Inl ValueError"
  "data ent = None \<Longrightarrow> \<exists>err. agendamento_try e (Some ent) = Inl err"
  "data ent = Some d \<Longrightarrow> hora ent = Some h \<Longrightarrow> montar_intervalo e d h = Inl err \<Longrightarrow>
     \<exists>err'. agendamento_try e (Some ent) = Inl err'"
  by (auto simp add: agendamento_try_def falsy_def split: option.splits)

lemma verificacao_try_failures:
  "verificacao_try e None = Inl ValueError"
  "falsy (data ent) \<or> falsy (hora ent) \<Longrightarrow> verificacao_try e (Some ent) = Inl ValueError"
  "data ent = Some d \<Longrightarrow> hora ent = Some h \<Longrightarrow> montar_intervalo e d h = Inl err \<Longrightarrow>
     \<exists>err'. verificacao_try e (Some ent) = Inl err'"
  by (auto simp add: verificacao_try_def falsy_def split: option.splits)

lemma parse_hora_Inr_iff:
  "parse_hora h = Inr (hh, mm) \<longleftrightarrow> map py_int (split_on (CHR '':'') h) = [Some hh, Some mm]"
  by (auto simp add: parse_hora_def split: list.splits option.splits)

lemma parse_hora_Inl_iff:
  "(\<exists>err. parse_hora h = Inl err) \<longleftrightarrow>
     (\<forall>hh mm. map py_int (split_on (CHR '':'') h) \<noteq> [Some hh, Some mm])"
proof -
  have "(\<exists>err. parse_hora h = Inl err) \<longleftrightarrow> (\<forall>hh mm. parse_hora h \<noteq> Inr (hh, mm))"
    by (cases "parse_hora h") auto
  then show ?thesis by (simp only: parse_hora_Inr_iff)
qed

lemma montar_intervalo_fails_iff:
  "(\<exists>err. montar_intervalo e d h = Inl err) \<longleftrightarrow>
     strptime e (strip d) = None
   \<or> (\<forall>hh mm. map py_int (split_on (CHR '':'') h) \<noteq> [Some hh, Some mm])
   \<or> (\<exists>dia hh mm. strptime e (strip d) = Some dia
         \<and> map py_int (split_on (CHR '':'') h) = [Some hh, Some mm]
         \<and> (hh < 0 \<or> 23 < hh \<or> mm < 0 \<or> 59 < mm
            \<or> (\<exists>err. localize e (dia * 1440 + hh * 60 + mm) = Inl err)
            \<or> wall_max < dia * 1440 + hh * 60 + mm + 60))"
proof (cases "strptime e (strip d)")
  case None
  then show ?thesis by (simp add: montar_intervalo_def)
next
  case (Some dia)
  show ?thesis
  proof (cases "parse_hora h")
    case (Inl err)
    then have "\<exists>err. parse_hora h = Inl err" by blast
    then have "\<forall>hh mm. map py_int (split_on (CHR '':'') h) \<noteq> [Some hh, Some mm]"
      by (simp add: parse_hora_Inl_iff)
    with Some Inl show ?thesis by (auto simp add: montar_intervalo_def)
  next
    case (Inr p)
    obtain hh mm where p: "p = (hh, mm)" by (cases p)
    with Inr have l: "map py_int (split_on (CHR '':'') h) = [Some hh, Some mm]"
      by (simp add: parse_hora_Inr_iff)
    show ?thesis
      using Some Inr p l
      by (cases "localize e (dia * 1440 + hh * 60 + mm)")
         (auto simp add: montar_intervalo_def Let_def plus_minutes_def)
  qed
qed

text \<open>
  C8. A schedule or verify request fails to parse when the entities are absent, a required
  entity is absent or empty (title and time for a schedule request, date and time for a
  verify request; the date of a schedule request must be present), or the date and time
  do not make an interval. Such a request ends with the one message that asks for a clearer
  format; the stored negotiation state and the log of collaborator calls are those from
  before the request. Date and time make no interval exactly when the date does not parse,
  the time is not two integers around one colon, hour or minute is out of range, the time
  zone library raises, or the end would pass the last minute of the year 9999.
\<close>

theorem parse_failure_reports_error:
  "((ents = None \<or>
      (\<exists>ent. ents = Some ent \<and>
         (falsy (titulo ent) \<or> falsy (hora ent) \<or> data ent = None \<or>
          (\<exists>d h err. data ent = Some d \<and> hora ent = Some h \<and> montar_intervalo e d h = Inl err)))) \<longrightarrow>
      execute_agendamento e chat_id ents w = w\<lparr>sent := sent w @ [(chat_id, MsgErroAgendamento)]\<rparr>
      \<and> storage (execute_agendamento e chat_id ents w) = storage w
      \<and> calls (execute_agendamento e chat_id ents w) = calls w)
   \<and> ((ents = None \<or>
      (\<exists>ent. ents = Some ent \<and>
         (falsy (data ent) \<or> falsy (hora ent) \<or>
          (\<exists>d h err. data ent = Some d \<and> hora ent = Some h \<and> montar_intervalo e d h = Inl err)))) \<longrightarrow>
      execute_verificacao e chat_id ents w = w\<lparr>sent := sent w @ [(chat_id, MsgErroVerificacao)]\<rparr>
      \<and> storage (execute_verificacao e chat_id ents w) = storage w
      \<and> calls (execute_verificacao e chat_id ents w) = calls w)
   \<and> ((\<exists>err. montar_intervalo e d0 h0 = Inl err) \<longleftrightarrow>
        strptime e (strip d0) = None
      \<or> (\<forall>hh mm. map py_int (split_on (CHR '':'') h0) \<noteq> [Some hh, Some mm])
      \<or> (\<exists>dia hh mm. strptime e (strip d0) = Some dia
            \<and> map py_int (split_on (CHR '':'') h0) = [Some hh, Some mm]
            \<and> (hh < 0 \<or> 23 < hh \<or> mm < 0 \<or> 59 < mm
               \<or> (\<exists>err. localize e (dia * 1440 + hh * 60 + mm) = Inl err)
               \<or> wall_max < dia * 1440 + hh * 60 + mm + 60)))"
proof (intro conjI impI)
  assume a: "ents = None \<or>
      (\<exists>ent. ents = Some ent \<and>
         (falsy (titulo ent) \<or> falsy (hora ent) \<or> data ent = None \<or>
          (\<exists>d h err. data ent = Some d \<and> hora ent = Some h \<and> montar_intervalo e d h = Inl err)))"
  then have "\<exists>err. agendamento_try e ents = Inl err"
    using agendamento_try_failures [where e = e] by (elim disjE exE conjE) auto
  then obtain err where t: "agendamento_try e ents = Inl err" ..
  then show r: "execute_agendamento e chat_id ents w = w\<lparr>sent := sent w @ [(chat_id, MsgErroAgendamento)]\<rparr>"
    by (simp add: execute_agendamento_def send_message_def)
  show "storage (execute_agendamento e chat_id ents w) = storage w"
    and "calls (execute_agendamento e chat_id ents w) = calls w"
    by (simp_all add: r)
next
  assume a: "ents = None \<or>
      (\<exists>ent. ents = Some ent \<and>
         (falsy (data ent) \<or> falsy (hora ent) \<or>
          (\<exists>d h err. data ent = Some d \<and> hora ent = Some h \<and> montar_intervalo e d h = Inl err)))"
  then have "\<exists>err. verificacao_try e ents = Inl err"
    using verificacao_try_failures [where e = e] by (elim disjE exE conjE) auto
  then obtain err where t: "verificacao_try e ents = Inl err" ..
  then show r: "execute_verificacao e chat_id ents w = w\<lparr>sent := sent w @ [(chat_id, MsgErroVerificacao)]\<rparr>"
    by (simp add: execute_verificacao_def send_message_def)
  show "storage (execute_verificacao e chat_id ents w) = storage w"
    and "calls (execute_verificacao e chat_id ents w) = calls w"
    by (simp_all add: r)
next
  show "(\<exists>err. montar_intervalo e d0 h0 = Inl err) \<longleftrightarrow>
        strptime e (strip d0) = None
      \<or> (\<forall>hh mm. map py_int (split_on (CHR '':'') h0) \<noteq> [Some hh, Some mm])
      \<or> (\<exists>dia hh mm. strptime e (strip d0) = Some dia
            \<and> map py_int (split_on (CHR '':'') h0) = [Some hh, Some mm]
            \<and> (hh < 0 \<or> 23 < hh \<or> mm < 0 \<or> 59 < mm
               \<or> (\<exists>err. localize e (dia * 1440 + hh * 60 + mm) = Inl err)
               \<or> wall_max < dia * 1440 + hh * 60 + mm + 60))"
    by (rule montar_intervalo_fails_iff)
qed

theorem parse_failure_reports_error_witness:
  "montar_intervalo env_busy ''2025-03-10'' ''25:00'' = Inl ValueError
   \<and> execute_agendamento env_busy 7 (Some entities_2500) w_idle
        = \<lparr>storage = Map.empty, sent = [(7, MsgErroAgendamento)], calls = []\<rparr>
   \<and> execute_verificacao env_busy 7 (Some entities_2500) w_idle
        = \<lparr>storage = Map.empty, sent = [(7, MsgErroVerificacao)], calls = []\<rparr>
   \<and> execute_agendamento env_busy 7 (Some entities_fs) w_idle
        = \<lparr>storage = Map.empty, sent = [(7, MsgErroAgendamento)], calls = []\<rparr>
   \<and> execute_agendamento env_busy 7 (Some entities_9999) w_idle
        = \<lparr>storage = Map.empty, sent = [(7, MsgErroAgendamento)], calls = []\<rparr>"
proof -
  have m1: "montar_intervalo env_busy ''2025-03-10'' ''25:00'' = Inl ValueError" by code_simp
  have m2: "montar_intervalo env_busy ''2025-03-10'' (CHR 0x1C # ''13:00'') = Inl ValueError"
    by code_simp
  have m3: "montar_intervalo env_busy ''9999-12-31'' ''23:30'' = Inl OverflowError" by code_simp
  have h1: "Some entities_2500 = None \<or>
      (\<exists>ent. Some entities_2500 = Some ent \<and>
         (falsy (titulo ent) \<or> falsy (hora ent) \<or> data ent = None \<or>
          (\<exists>d h err. data ent = Some d \<and> hora ent = Some h \<and> montar_intervalo env_busy d h = Inl err)))"
    using m1 by (simp add: entities_2500_def)
  have h2: "Some entities_2500 = None \<or>
      (\<exists>ent. Some entities_2500 = Some ent \<and>
         (falsy (data ent) \<or> falsy (hora ent) \<or>
          (\<exists>d h err. data ent = Some d \<and> hora ent = Some h \<and> montar_intervalo env_busy d h = Inl err)))"
    using m1 by (simp add: entities_2500_def)
  have h3: "Some entities_fs = None \<or>
      (\<exists>ent. Some entities_fs = Some ent \<and>
         (falsy (titulo ent) \<or> falsy (hora ent) \<or> data ent = None \<or>
          (\<exists>d h err. data ent = Some d \<and> hora ent = Some h \<and> montar_intervalo env_busy d h = Inl err)))"
    using m2 by (simp add: entities_fs_def)
  have h4: "Some entities_9999 = None \<or>
      (\<exists>ent. Some entities_9999 = Some ent \<and>
         (falsy (titulo ent) \<or> falsy (hora ent) \<or> data ent = None \<or>
          (\<exists>d h err. data ent = Some d \<and> hora ent = Some h \<and> montar_intervalo env_busy d h = Inl err)))"
    using m3 by (simp add: entities_9999_def)
  note t1 = parse_failure_reports_error [of "Some entities_2500" env_busy 7 w_idle "''2025-03-10''" "''25:00''"]
  note t3 = parse_failure_reports_error [of "Some entities_fs" env_busy 7 w_idle "''2025-03-10''" "''25:00''"]
  note t4 = parse_failure_reports_error [of "Some entities_9999" env_busy 7 w_idle "''2025-03-10''" "''25:00''"]
  have a1: "execute_agendamento env_busy 7 (Some entities_2500) w_idle
        = w_idle\<lparr>sent := sent w_idle @ [(7, MsgErroAgendamento)]\<rparr>"
    using t1 h1 by blast
  have a2: "execute_verificacao env_busy 7 (Some entities_2500) w_idle
        = w_idle\<lparr>sent := sent w_idle @ [(7, MsgErroVerificacao)]\<rparr>"
    using t1 h2 by blast
  have a3: "execute_agendamento env_busy 7 (Some entities_fs) w_idle
        = w_idle\<lparr>sent := sent w_idle @ [(7, MsgErroAgendamento)]\<rparr>"
    using t3 h3 by blast
  have a4: "execute_agendamento env_busy 7 (Some entities_9999) w_idle
        = w_idle\<lparr>sent := sent w_idle @ [(7, MsgErroAgendamento)]\<rparr>"
    using t4 h4 by blast
  show ?thesis
    unfolding a1 a2 a3 a4 by (simp add: m1 w_idle_def)
qed

subsection \<open>Queries\<close>

lemma lower_char_ascii:
  "(n::nat) < 128 \<Longrightarrow> (of_char (lower_char (char_of n)) :: nat) < 128
     \<and> \<not> (65 \<le> (of_char (lower_char (char_of n)) :: nat) \<and> (of_char (lower_char (char_of n)) :: nat) \<le> 90)"
  by (simp add: lower_char_def Let_def)

lemma normalize_keyword_ascii_lower:
  "list_all (\<lambda>c. (of_char c :: nat) < 128 \<and> \<not> (65 \<le> (of_char c :: nat) \<and> (of_char c :: nat) \<le> 90))
     (normalize_keyword keyword)"
  unfolding normalize_keyword_def encode_ascii_ignore_def list_all_iff
  using lower_char_ascii by auto

lemma nfd_ascii_char:
  "(of_char c :: nat) < 128 \<Longrightarrow> map_of nfd_table (of_char c) = None"
  by (simp add: nfd_table_def)

lemma normalize_keyword_on_ascii:
  "list_all (\<lambda>c. (of_char c :: nat) < 128) keyword \<Longrightarrow> normalize_keyword keyword = map lower_char keyword"
  by (induction keyword)
     (simp_all add: normalize_keyword_def encode_ascii_ignore_def normalize_NFD_def nfd_ascii_char)

lemma lowercase_bases:
  "char_of (97::nat) = CHR ''a''" "char_of (99::nat) = CHR ''c''" "char_of (101::nat) = CHR ''e''"
  "char_of (105::nat) = CHR ''i''" "char_of (110::nat) = CHR ''n''" "char_of (111::nat) = CHR ''o''"
  "char_of (117::nat) = CHR ''u''" "char_of (121::nat) = CHR ''y''"
  by code_simp+

lemma norm_char_low:
  assumes "(of_char c :: nat) < 128"
  shows "map lower_char (encode_ascii_ignore
           (case map_of nfd_table (of_char c) of Some d \<Rightarrow> d | None \<Rightarrow> [of_char c]))
         = map lower_char (case spec_strip_diacritic c of Some b \<Rightarrow> [b] | None \<Rightarrow> [])"
  using assms by (simp add: nfd_ascii_char encode_ascii_ignore_def spec_strip_diacritic_def)

lemma norm_char_high:
  assumes "128 \<le> (of_char c :: nat)"
  shows "map lower_char (encode_ascii_ignore
           (case map_of nfd_table (of_char c) of Some d \<Rightarrow> d | None \<Rightarrow> [of_char c]))
         = map lower_char (case spec_strip_diacritic c of Some b \<Rightarrow> [b] | None \<Rightarrow> [])"
proof (cases c)
  case (Char b0 b1 b2 b3 b4 b5 b6 b7)
  have low: "(of_char (Char b0 b1 b2 b3 b4 b5 b6 False) :: nat) < 128"
    by (cases b0; cases b1; cases b2; cases b3; cases b4; cases b5; cases b6; simp)
  with assms Char have b7 by (cases b7) simp_all
  then show ?thesis
    unfolding Char
    by (cases b0; cases b1; cases b2; cases b3; cases b4; cases b5; cases b6;
        simp add: nfd_table_def encode_ascii_ignore_def spec_strip_diacritic_def lower_char_def
          lowercase_bases)
qed

lemma normalize_keyword_Cons:
  "normalize_keyword (c # cs) =
     map lower_char (encode_ascii_ignore
        (case map_of nfd_table (of_char c) of Some d \<Rightarrow> d | None \<Rightarrow> [of_char c]))
     @ normalize_keyword cs"
  by (simp add: normalize_keyword_def normalize_NFD_def encode_ascii_ignore_def)

lemma spec_normalize_Cons:
  "spec_normalize (c # cs) =
     map lower_char (case spec_strip_diacritic c of Some b \<Rightarrow> [b] | None \<Rightarrow> []) @ spec_normalize cs"
  by (simp add: spec_normalize_def List.map_filter_simps split: option.splits)

lemma normalize_keyword_is_spec: "normalize_keyword keyword = spec_normalize keyword"
proof (induction keyword)
  case Nil
  show ?case
    by (simp add: normalize_keyword_def normalize_NFD_def encode_ascii_ignore_def
          spec_normalize_def List.map_filter_simps)
next
  case (Cons c cs)
  have "map lower_char (encode_ascii_ignore
           (case map_of nfd_table (of_char c) of Some d \<Rightarrow> d | None \<Rightarrow> [of_char c]))
         = map lower_char (case spec_strip_diacritic c of Some b \<Rightarrow> [b] | None \<Rightarrow> [])"
  proof (cases "(of_char c :: nat) < 128")
    case True
    then show ?thesis by (rule norm_char_low)
  next
    case False
    then have "128 \<le> (of_char c :: nat)" by simp
    then show ?thesis by (rule norm_char_high)
  qed
  with Cons.IH show ?case
    by (simp only: normalize_keyword_Cons spec_normalize_Cons)
qed

text \<open>
  C9. A query with a non-empty keyword makes exactly one collaborator call, the search for
  the normalized keyword. The normalized keyword is the keyword with every accented letter
  replaced by its base letter, every other character outside ASCII left out, and capitals
  lowered; it is ASCII without capital letters, and for an ASCII keyword it is the keyword in
  lower case. A query whose keyword is absent or empty sends the could-not-extract message
  and calls no collaborator.
\<close>

theorem consulta_normalizes_keyword:
  "(kw \<noteq> [] \<longrightarrow>
      calls (execute_consulta e chat_id (Some kw) w) = calls w @ [Search (normalize_keyword kw)])
   \<and> normalize_keyword kw = map lower_char (List.map_filter spec_strip_diacritic kw)
   \<and> list_all (\<lambda>c. (of_char c :: nat) < 128 \<and> \<not> (65 \<le> (of_char c :: nat) \<and> (of_char c :: nat) \<le> 90))
         (normalize_keyword kw)
   \<and> (list_all (\<lambda>c. (of_char c :: nat) < 128) kw \<longrightarrow> normalize_keyword kw = map lower_char kw)
   \<and> (keyword = None \<or> keyword = Some [] \<longrightarrow>
      execute_consulta e chat_id keyword w = w\<lparr>sent := sent w @ [(chat_id, MsgSemPalavraChave)]\<rparr>
      \<and> calls (execute_consulta e chat_id keyword w) = calls w)"
proof (intro conjI impI)
  assume "kw \<noteq> []"
  then show "calls (execute_consulta e chat_id (Some kw) w) = calls w @ [Search (normalize_keyword kw)]"
    by (simp add: execute_consulta_def obter_eventos_por_palavra_chave_def send_message_def Let_def)
next
  show "normalize_keyword kw = map lower_char (List.map_filter spec_strip_diacritic kw)"
    using normalize_keyword_is_spec [of kw] by (simp only: spec_normalize_def)
next
  show "list_all (\<lambda>c. (of_char c :: nat) < 128 \<and> \<not> (65 \<le> (of_char c :: nat) \<and> (of_char c :: nat) \<le> 90))
            (normalize_keyword kw)"
    by (rule normalize_keyword_ascii_lower)
next
  assume "list_all (\<lambda>c. (of_char c :: nat) < 128) kw"
  then show "normalize_keyword kw = map lower_char kw"
    by (rule normalize_keyword_on_ascii)
next
  assume k: "keyword = None \<or> keyword = Some []"
  then show "execute_consulta e chat_id keyword w = w\<lparr>sent := sent w @ [(chat_id, MsgSemPalavraChave)]\<rparr>"
    by (auto simp add: execute_consulta_def send_message_def)
  from k show "calls (execute_consulta e chat_id keyword w) = calls w"
    by (auto simp add: execute_consulta_def send_message_def)
qed

theorem consulta_normalizes_keyword_witness:
  "calls (execute_consulta env_busy 7 (Some almoco) w_idle) = [Search ''almoco'']
   \<and> normalize_keyword reuniao = ''reuniao cafe ''
   \<and> normalize_keyword ''Lunch'' = ''lunch''
   \<and> execute_consulta env_busy 7 (Some []) w_idle
        = \<lparr>storage = Map.empty, sent = [(7, MsgSemPalavraChave)], calls = []\<rparr>"
proof -
  have s1: "map lower_char (List.map_filter spec_strip_diacritic almoco) = ''almoco''" by code_simp
  have s2: "map lower_char (List.map_filter spec_strip_diacritic reuniao) = ''reuniao cafe ''" by code_simp
  have l: "list_all (\<lambda>c. (of_char c :: nat) < 128) ''Lunch''" by simp
  have ml: "map lower_char ''Lunch'' = ''lunch''" by code_simp
  have ne: "almoco \<noteq> []" by (simp add: almoco_def)
  note t1 = consulta_normalizes_keyword [of almoco env_busy 7 w_idle "Some []"]
  note t2 = consulta_normalizes_keyword [of reuniao env_busy 7 w_idle "Some []"]
  note t3 = consulta_normalizes_keyword [of "''Lunch''" env_busy 7 w_idle "Some []"]
  note n1 = t1 [THEN conjunct2, THEN conjunct1, unfolded s1]
  note n2 = t2 [THEN conjunct2, THEN conjunct1, unfolded s2]
  note n3 = t3 [THEN conjunct2, THEN conjunct2, THEN conjunct2, THEN conjunct1, rule_format, OF l,
                unfolded ml]
  have c: "calls (execute_consulta env_busy 7 (Some almoco) w_idle) = [Search ''almoco'']"
    using t1 [THEN conjunct1, rule_format, OF ne] by (simp add: n1 w_idle_def)
  have e: "execute_consulta env_busy 7 (Some []) w_idle
        = \<lparr>storage = Map.empty, sent = [(7, MsgSemPalavraChave)], calls = []\<rparr>"
    using t1 by (simp add: w_idle_def)
  from c n2 n3 e show ?thesis by simp
qed

subsection \<open>The length of every interval\<close>

lemma montar_intervalo_end:
  "montar_intervalo e d h = Inr (inicio, fim) \<Longrightarrow> fim = plus_minutes inicio 60"
  by (auto simp add: montar_intervalo_def Let_def split: option.splits sum.splits if_splits)

lemma agendamento_try_end:
  "agendamento_try e ents = Inr (resumo, inicio, fim) \<Longrightarrow> fim = plus_minutes inicio 60"
  by (auto simp add: agendamento_try_def dest: montar_intervalo_end
        split: option.splits sum.splits if_splits)

lemma verificacao_try_end:
  "verificacao_try e ents = Inr (inicio, fim) \<Longrightarrow> fim = plus_minutes inicio 60"
  by (auto simp add: verificacao_try_def dest: montar_intervalo_end
        split: option.splits sum.splits if_splits)

lemma execute_agendamento_calls:
  "calls (execute_agendamento e chat_id ents w) = calls w @
     (case agendamento_try e ents of
        Inl err \<Rightarrow> []
      | Inr (resumo, inicio, fim) \<Rightarrow>
          if free e inicio fim then [CheckFree inicio fim, Create resumo inicio fim]
          else CheckFree inicio fim #
               map (\<lambda>m. CheckFree (plus_minutes inicio m) (plus_minutes (plus_minutes inicio m) 60))
                 [30, 60, 90])"
  by (simp add: execute_agendamento_def send_message_def verificar_disponibilidade_def
        criar_evento_def sugerir_horarios_eq numerar_0 Let_def split: sum.splits)

lemma execute_verificacao_calls:
  "calls (execute_verificacao e chat_id ents w) = calls w @
     (case verificacao_try e ents of
        Inl err \<Rightarrow> []
      | Inr (inicio, fim) \<Rightarrow>
          if free e inicio fim then [CheckFree inicio fim]
          else CheckFree inicio fim #
               map (\<lambda>m. CheckFree (plus_minutes inicio m) (plus_minutes (plus_minutes inicio m) 60))
                 [30, 60, 90])"
  by (simp add: execute_verificacao_def send_message_def verificar_disponibilidade_def
        sugerir_horarios_eq numerar_0 Let_def split: sum.splits)

lemma execute_consulta_calls:
  "calls (execute_consulta e chat_id keyword w) = calls w @
     (case keyword of None \<Rightarrow> [] | Some kw \<Rightarrow> if kw = [] then [] else [Search (normalize_keyword kw)])"
  by (simp add: execute_consulta_def send_message_def obter_eventos_por_palavra_chave_def Let_def
        split: option.splits)

lemma execute_agendamento_one_hour:
  "\<exists>new. calls (execute_agendamento e chat_id ents w) = calls w @ new \<and> list_all call_one_hour new"
  unfolding execute_agendamento_calls
  by (auto dest: agendamento_try_end split: sum.splits)

lemma execute_verificacao_one_hour:
  "\<exists>new. calls (execute_verificacao e chat_id ents w) = calls w @ new \<and> list_all call_one_hour new"
  unfolding execute_verificacao_calls
  by (auto dest: verificacao_try_end split: sum.splits)

lemma execute_consulta_one_hour:
  "\<exists>new. calls (execute_consulta e chat_id keyword w) = calls w @ new \<and> list_all call_one_hour new"
  unfolding execute_consulta_calls
  by (auto split: option.splits)

lemma after_classify:
  assumes "\<exists>new. calls w' = (calls w @ [Classify t]) @ new \<and> list_all call_one_hour new"
  shows "\<exists>new. calls w' = calls w @ new \<and> list_all call_one_hour new"
proof -
  from assms obtain new where "calls w' = (calls w @ [Classify t]) @ new" "list_all call_one_hour new"
    by blast
  then have "calls w' = calls w @ (Classify t # new) \<and> list_all call_one_hour (Classify t # new)"
    by simp
  then show ?thesis by blast
qed

lemma decidir_e_executar_one_hour:
  "\<exists>new. calls (decidir_e_executar e chat_id msg w) = calls w @ new \<and> list_all call_one_hour new"
proof -
  let ?w1 = "w\<lparr>calls := calls w @ [Classify msg]\<rparr>"
  have c: "calls ?w1 = calls w @ [Classify msg]" by simp
  have "\<exists>new. calls (decidir_e_executar e chat_id msg w) = calls ?w1 @ new \<and> list_all call_one_hour new"
    using execute_agendamento_one_hour [of e chat_id _ "?w1"]
      execute_verificacao_one_hour [of e chat_id _ "?w1"]
      execute_consulta_one_hour [of e chat_id _ "?w1"]
    unfolding decidir_e_executar_def analisar_e_decidir_acao_com_gemini_def Let_def prod.case
    by (auto simp add: send_message_def split: option.splits)
  then show ?thesis unfolding c by (rule after_classify)
qed

lemma handle_messages_one_hour:
  "handle_messages e chat_id msg w = Inr w' \<Longrightarrow>
     \<exists>new. calls w' = calls w @ new \<and> list_all call_one_hour new"
  using decidir_e_executar_one_hour [of e chat_id msg w]
  by (auto simp add: handle_messages_def criar_evento_def send_message_def Let_def
        split: option.splits if_splits)

lemma handle_follow_up_one_hour:
  "handle_follow_up e chat_id msg w = Inr (b, w') \<Longrightarrow>
     \<exists>new. calls w' = calls w @ new \<and> list_all call_one_hour new"
  by (auto simp add: handle_follow_up_def criar_evento_def send_message_def Let_def
        split: option.splits if_splits)

text \<open>
  C6. The interval a schedule or verify request builds from its date and time ends exactly
  60 minutes after its start. Whatever the message and the state it arrives in, every
  free/busy check and every event creation made while the message is processed carries an
  interval that ends 60 minutes after its start; this covers the target slot, the three
  offset candidates and the slot of a confirmed selection or title.
\<close>

theorem every_slot_is_one_hour:
  "(montar_intervalo e d h = Inr (inicio, fim) \<longrightarrow>
      fim = plus_minutes inicio 60 \<and> instant fim = instant inicio + 60)
   \<and> (on_message e chat_id msg w = Inr w' \<longrightarrow>
      (\<exists>new. calls w' = calls w @ new \<and> list_all call_one_hour new))"
proof (intro conjI impI)
  assume "montar_intervalo e d h = Inr (inicio, fim)"
  then have f: "fim = plus_minutes inicio 60" by (rule montar_intervalo_end)
  then show "fim = plus_minutes inicio 60" .
  from f show "instant fim = instant inicio + 60" by (simp add: instant_def plus_minutes_def)
next
  assume r: "on_message e chat_id msg w = Inr w'"
  show "\<exists>new. calls w' = calls w @ new \<and> list_all call_one_hour new"
  proof (cases "regex_digits msg")
    case True
    with r obtain b where "handle_follow_up e chat_id msg w = Inr (b, w')"
      by (auto simp add: on_message_def split: sum.splits)
    then show ?thesis by (rule handle_follow_up_one_hour)
  next
    case False
    show ?thesis
    proof (cases "msg = []")
      case True
      with False r have "w' = w" by (simp add: on_message_def)
      then show ?thesis by simp
    next
      case nonempty: False
      with False r have "handle_messages e chat_id msg w = Inr w'" by (simp add: on_message_def)
      then show ?thesis by (rule handle_messages_one_hour)
    qed
  qed
qed

theorem every_slot_is_one_hour_witness:
  "montar_intervalo env_busy ''2025-03-10'' ''13:00'' = Inr (t_1300, plus_minutes t_1300 60)
   \<and> instant (plus_minutes t_1300 60) = instant t_1300 + 60
   \<and> on_message env_busy 7 ''book lunch at 13:00 on 2025-03-10'' w_idle
        = Inr (decidir_e_executar env_busy 7 ''book lunch at 13:00 on 2025-03-10'' w_idle)
   \<and> calls (decidir_e_executar env_busy 7 ''book lunch at 13:00 on 2025-03-10'' w_idle)
        = [Classify ''book lunch at 13:00 on 2025-03-10'',
           CheckFree t_1300 (plus_minutes t_1300 60),
           CheckFree (plus_minutes t_1300 30) (plus_minutes (plus_minutes t_1300 30) 60),
           CheckFree (plus_minutes t_1300 60) (plus_minutes (plus_minutes t_1300 60) 60),
           CheckFree (plus_minutes t_1300 90) (plus_minutes (plus_minutes t_1300 90) 60)]
   \<and> (\<exists>new. calls (decidir_e_executar env_busy 7 ''book lunch at 13:00 on 2025-03-10'' w_idle)
                = calls w_idle @ new \<and> list_all call_one_hour new)"
proof -
  let ?m = "''book lunch at 13:00 on 2025-03-10''"
  have m: "montar_intervalo env_busy ''2025-03-10'' ''13:00'' = Inr (t_1300, plus_minutes t_1300 60)"
    by code_simp
  have nd: "\<not> regex_digits ?m" by code_simp
  have r: "on_message env_busy 7 ?m w_idle = Inr (decidir_e_executar env_busy 7 ?m w_idle)"
    using nd by (simp add: on_message_def handle_messages_def w_idle_def)
  have h1: "agendamento_try env_busy (Some lunch_entities) = Inr (''lunch'', t_1300, plus_minutes t_1300 60)"
    by code_simp
  have h2: "\<not> free env_busy t_1300 (plus_minutes t_1300 60)"
    by code_simp
  have g: "gemini env_busy ?m =
      Some \<lparr>d_action = Some ''agendar'', d_agendamento = Some lunch_entities, d_consulta = None\<rparr>"
    by (simp add: env_busy_def)
  have c: "calls (decidir_e_executar env_busy 7 ?m w_idle)
        = [Classify ?m,
           CheckFree t_1300 (plus_minutes t_1300 60),
           CheckFree (plus_minutes t_1300 30) (plus_minutes (plus_minutes t_1300 30) 60),
           CheckFree (plus_minutes t_1300 60) (plus_minutes (plus_minutes t_1300 60) 60),
           CheckFree (plus_minutes t_1300 90) (plus_minutes (plus_minutes t_1300 90) 60)]"
    by (simp add: decidir_e_executar_def analisar_e_decidir_acao_com_gemini_def g decision_falsy_def
          execute_agendamento_calls h1 h2 w_idle_def)
  show ?thesis
    using every_slot_is_one_hour
      [of env_busy "''2025-03-10''" "''13:00''" t_1300 "plus_minutes t_1300 60" 7 ?m w_idle
          "decidir_e_executar env_busy 7 ?m w_idle"]
      m r c
    by simp
qed

subsection \<open>Digit messages outside a pending selection\<close>

lemma digits_without_selection_state:
  assumes "regex_digits msg"
    and "storage w chat_id = None \<or>
         (\<exists>ctx. storage w chat_id = Some ctx \<and> action ctx \<noteq> Some ''awaiting_time_selection'')"
  shows "handle_follow_up e chat_id msg w = Inr (False, w)"
    and "on_message e chat_id msg w = Inr w"
  using assms by (auto simp add: on_message_def handle_follow_up_def)

lemma execute_agendamento_busy:
  assumes "agendamento_try e ents = Inr (resumo, inicio, fim)"
    and "\<not> free e inicio fim"
    and "fst (sugerir_horarios e inicio fim w0) = sugestoes"
    and "sugestoes \<noteq> []"
  shows "storage (execute_agendamento e chat_id ents w) chat_id =
           Some \<lparr>action = None, summary = Some resumo,
                 suggestions = Some (zip (map str_nat [1 ..< length sugestoes + 1]) sugestoes),
                 chosen_time_iso = None\<rparr>"
    and "sent (execute_agendamento e chat_id ents w) =
           sent w @ [(chat_id, MsgOcupadoSugestoes inicio (zip [1 ..< length sugestoes + 1] sugestoes))]"
proof -
  have s: "fst (sugerir_horarios e inicio fim v) = sugestoes" for v
    using assms(3) by (simp add: sugerir_horarios_eq)
  obtain v2 where v2: "sugerir_horarios e inicio fim (w\<lparr>calls := calls w @ [CheckFree inicio fim]\<rparr>) = (sugestoes, v2)"
    and sv: "storage v2 = storage w" "sent v2 = sent w"
    using s [of "w\<lparr>calls := calls w @ [CheckFree inicio fim]\<rparr>"]
    by (simp add: sugerir_horarios_eq)
  show "storage (execute_agendamento e chat_id ents w) chat_id =
           Some \<lparr>action = None, summary = Some resumo,
                 suggestions = Some (zip (map str_nat [1 ..< length sugestoes + 1]) sugestoes),
                 chosen_time_iso = None\<rparr>"
    using assms(2,4)
    by (simp add: execute_agendamento_def assms(1) verificar_disponibilidade_def v2 numerar_0
          send_message_def del: upt_Suc)
  show "sent (execute_agendamento e chat_id ents w) =
           sent w @ [(chat_id, MsgOcupadoSugestoes inicio (zip [1 ..< length sugestoes + 1] sugestoes))]"
    using assms(2,4)
    by (simp add: execute_agendamento_def assms(1) verificar_disponibilidade_def v2 numerar_0
          send_message_def sv del: upt_Suc)
qed

lemma reply_after_agendar_has_no_effect:
  assumes "agendamento_try e ents = Inr (resumo, inicio, fim)"
    and "\<not> free e inicio fim"
    and "fst (sugerir_horarios e inicio fim w0) \<noteq> []"
    and "regex_digits msg"
  shows "on_message e' chat_id msg (execute_agendamento e chat_id ents w)
           = Inr (execute_agendamento e chat_id ents w)"
proof -
  have "\<exists>ctx. storage (execute_agendamento e chat_id ents w) chat_id = Some ctx
          \<and> action ctx \<noteq> Some ''awaiting_time_selection''"
    using execute_agendamento_busy(1) [OF assms(1,2) refl assms(3), of chat_id w] by simp
  then show ?thesis
    using assms(4) by (simp add: digits_without_selection_state)
qed

lemma try_lunch:
  "agendamento_try env_busy (Some lunch_entities) = Inr (''lunch'', t_1300, plus_minutes t_1300 60)"
  by code_simp

lemma try_verificar:
  "verificacao_try env_busy (Some \<lparr>titulo = None, data = Some ''2025-03-10'', hora = Some ''13:00''\<rparr>)
     = Inr (t_1300, plus_minutes t_1300 60)"
  by code_simp

lemma busy_1300: "\<not> free env_busy t_1300 (plus_minutes t_1300 60)"
  by code_simp

lemma sugestoes_1300:
  "sugerir_horarios env_busy t_1300 f w =
     ([plus_minutes t_1300 60, plus_minutes t_1300 90],
      w\<lparr>calls := calls w @
           [CheckFree (plus_minutes t_1300 30) (plus_minutes (plus_minutes t_1300 30) 60),
            CheckFree (plus_minutes t_1300 60) (plus_minutes (plus_minutes t_1300 60) 60),
            CheckFree (plus_minutes t_1300 90) (plus_minutes (plus_minutes t_1300 90) 60)]\<rparr>)"
proof -
  have "filter (\<lambda>m. free env_busy (plus_minutes t_1300 m) (plus_minutes (plus_minutes t_1300 m) 60))
          [30, 60, 90] = [60, 90]"
    by (simp add: env_busy_def t_1300_def plus_minutes_def)
  then show ?thesis unfolding sugerir_horarios_eq by simp
qed

lemma labels_1_2: "str_nat 1 = ''1''" "str_nat 2 = ''2''"
  by code_simp+

lemma numerar_two:
  "numerar 0 [a, b] [] [] = ([(''1'', a), (''2'', b)], [(1, a), (2, b)])"
proof -
  have u: "[1 ..< length [a, b] + 1] = [1, 2]" by (simp add: upt_rec)
  show ?thesis unfolding numerar_0 u by (simp add: labels_1_2 [unfolded One_nat_def] labels_1_2)
qed

lemma w_agendar_eq:
  "w_agendar =
     \<lparr>storage = [7 \<mapsto> ctx_agendar],
      sent = [(7, MsgOcupadoSugestoes t_1300 [(1, plus_minutes t_1300 60), (2, plus_minutes t_1300 90)])],
      calls = [Classify msg_agendar,
               CheckFree t_1300 (plus_minutes t_1300 60),
               CheckFree (plus_minutes t_1300 30) (plus_minutes (plus_minutes t_1300 30) 60),
               CheckFree (plus_minutes t_1300 60) (plus_minutes (plus_minutes t_1300 60) 60),
               CheckFree (plus_minutes t_1300 90) (plus_minutes (plus_minutes t_1300 90) 60)]\<rparr>"
proof -
  have g: "gemini env_busy msg_agendar =
      Some \<lparr>d_action = Some ''agendar'', d_agendamento = Some lunch_entities, d_consulta = None\<rparr>"
    by (simp add: env_busy_def msg_agendar_def)
  show ?thesis
    by (simp add: w_agendar_def decidir_e_executar_def analisar_e_decidir_acao_com_gemini_def g
          decision_falsy_def execute_agendamento_def try_lunch verificar_disponibilidade_def
          busy_1300 sugestoes_1300 numerar_two send_message_def w_idle_def ctx_agendar_def
          del: numerar.simps)
qed

lemma w_verificar_eq:
  "w_verificar =
     \<lparr>storage = [7 \<mapsto> ctx_verificar],
      sent = [(7, MsgVerifOcupadoSugestoes t_1300 [(1, plus_minutes t_1300 60), (2, plus_minutes t_1300 90)])],
      calls = [Classify msg_verificar,
               CheckFree t_1300 (plus_minutes t_1300 60),
               CheckFree (plus_minutes t_1300 30) (plus_minutes (plus_minutes t_1300 30) 60),
               CheckFree (plus_minutes t_1300 60) (plus_minutes (plus_minutes t_1300 60) 60),
               CheckFree (plus_minutes t_1300 90) (plus_minutes (plus_minutes t_1300 90) 60)]\<rparr>"
proof -
  have g: "gemini env_busy msg_verificar =
      Some \<lparr>d_action = Some ''verificar'',
            d_agendamento = Some \<lparr>titulo = None, data = Some ''2025-03-10'', hora = Some ''13:00''\<rparr>,
            d_consulta = None\<rparr>"
    by (simp add: env_busy_def msg_verificar_def)
  show ?thesis
    by (simp add: w_verificar_def decidir_e_executar_def analisar_e_decidir_acao_com_gemini_def g
          decision_falsy_def execute_verificacao_def try_verificar verificar_disponibilidade_def
          busy_1300 sugestoes_1300 numerar_two send_message_def w_idle_def ctx_verificar_def
          del: numerar.simps)
qed

lemma fresh_request_while_idle:
  "\<not> regex_digits msg \<Longrightarrow> msg \<noteq> [] \<Longrightarrow>
     on_message e chat_id msg w_idle = Inr (decidir_e_executar e chat_id msg w_idle)"
  by (simp add: on_message_def handle_messages_def w_idle_def)

text \<open>
  C1. The claim: after a schedule request met a busy slot, a digit reply that is a key of
  the stored suggestions creates the event at the chosen slot, clears the state and
  confirms. The code: the entry \<open>execute_agendamento\<close> stores has no \<open>action\<close> key, so
  \<open>handle_follow_up\<close> does not take the selection branch. With 13:00 and 13:30 busy and
  14:00 and 14:30 free, the request stores the labels 1 (14:00) and 2 (14:30); the reply
  \<open>"2"\<close> then leaves the whole state as it was: no creation call, no message, the entry
  still stored.
\<close>

theorem scenario_B_reply_is_dropped:
  "on_message env_busy 7 msg_agendar w_idle = Inr w_agendar
   \<and> storage w_agendar 7 = Some ctx_agendar
   \<and> map_of [(''1'', plus_minutes t_1300 60), (''2'', plus_minutes t_1300 90)] ''2''
        = Some (plus_minutes t_1300 90)
   \<and> on_message env_busy 7 ''2'' w_agendar = Inr w_agendar
   \<and> calls w_agendar =
        [Classify msg_agendar,
         CheckFree t_1300 (plus_minutes t_1300 60),
         CheckFree (plus_minutes t_1300 30) (plus_minutes (plus_minutes t_1300 30) 60),
         CheckFree (plus_minutes t_1300 60) (plus_minutes (plus_minutes t_1300 60) 60),
         CheckFree (plus_minutes t_1300 90) (plus_minutes (plus_minutes t_1300 90) 60)]"
proof -
  have nd: "\<not> regex_digits msg_agendar" "msg_agendar \<noteq> []"
    unfolding msg_agendar_def by code_simp+
  have a: "on_message env_busy 7 msg_agendar w_idle = Inr w_agendar"
    unfolding w_agendar_def using nd by (rule fresh_request_while_idle)
  have st: "storage w_agendar 7 = Some ctx_agendar"
    by (simp add: w_agendar_eq)
  have d: "regex_digits ''2''" by code_simp
  have "action ctx_agendar \<noteq> Some ''awaiting_time_selection''"
    by (simp add: ctx_agendar_def)
  with st d have b: "on_message env_busy 7 ''2'' w_agendar = Inr w_agendar"
    by (simp add: digits_without_selection_state)
  from a st b show ?thesis by (simp add: w_agendar_eq)
qed

text \<open>
  C4. The claim: a digit reply that is not a key of the stored suggestions keeps the state
  and is answered with the invalid-option message. The code does so for an entry stored by
  a verify request (\<open>invalid_selection_after_verificar\<close> below). For the entry a schedule
  request stores, the reply \<open>"9"\<close> keeps the state but nothing is sent: the only message of
  the conversation is the one that offered the options.
\<close>

theorem scenario_D_after_agendar_no_reply:
  "storage w_agendar 7 = Some ctx_agendar
   \<and> map_of [(''1'', plus_minutes t_1300 60), (''2'', plus_minutes t_1300 90)] ''9'' = None
   \<and> on_message env_busy 7 ''9'' w_agendar = Inr w_agendar
   \<and> sent w_agendar =
        [(7, MsgOcupadoSugestoes t_1300 [(1, plus_minutes t_1300 60), (2, plus_minutes t_1300 90)])]"
proof -
  have st: "storage w_agendar 7 = Some ctx_agendar"
    by (simp add: w_agendar_eq)
  have d: "regex_digits ''9''" by code_simp
  have "action ctx_agendar \<noteq> Some ''awaiting_time_selection''"
    by (simp add: ctx_agendar_def)
  with st d have b: "on_message env_busy 7 ''9'' w_agendar = Inr w_agendar"
    by (simp add: digits_without_selection_state)
  from st b show ?thesis by (simp add: w_agendar_eq)
qed

text \<open>
  C3. The claim: while a title is awaited, any message, digits included, becomes the title
  of a created event. The code: a message of digits only goes to \<open>handle_follow_up\<close>, which
  returns without effect, and \<open>handle_messages\<close> never sees it. After a verify request and
  the reply \<open>"1"\<close>, the message \<open>"123"\<close> leaves the whole state as it was; the log holds no
  creation call. Every other non-empty message does become the title
  (\<open>title_reply_creates_event\<close> below).
\<close>

theorem digits_title_is_dropped:
  "on_message env_busy 7 msg_verificar w_idle = Inr w_verificar
   \<and> on_message env_busy 7 ''1'' w_verificar = Inr w_titulo
   \<and> storage w_titulo 7 = Some ctx_titulo
   \<and> on_message env_busy 7 ''123'' w_titulo = Inr w_titulo
   \<and> calls w_titulo = calls w_verificar
   \<and> list_all (\<lambda>c. case c of Create t s f \<Rightarrow> False | _ \<Rightarrow> True) (calls w_titulo)"
proof -
  have nd: "\<not> regex_digits msg_verificar" "msg_verificar \<noteq> []"
    unfolding msg_verificar_def by code_simp+
  have a: "on_message env_busy 7 msg_verificar w_idle = Inr w_verificar"
    unfolding w_verificar_def using nd by (rule fresh_request_while_idle)
  have d1: "regex_digits ''1''" "isdigit (strip ''1'')" "strip ''1'' = ''1''" by code_simp+
  have b: "on_message env_busy 7 ''1'' w_verificar = Inr w_titulo"
    using d1 by (simp add: on_message_def handle_follow_up_def w_titulo_def w_verificar_eq
        ctx_verificar_def ctx_titulo_def send_message_def)
  have st: "storage w_titulo 7 = Some ctx_titulo"
    by (simp add: w_titulo_def)
  have d: "regex_digits ''123''" by code_simp
  have "action ctx_titulo \<noteq> Some ''awaiting_time_selection''"
    by (simp add: ctx_titulo_def)
  with st d have c: "on_message env_busy 7 ''123'' w_titulo = Inr w_titulo"
    by (simp add: digits_without_selection_state)
  from a b st c show ?thesis by (simp add: w_titulo_def w_verificar_eq)
qed

text \<open>
  C7. The claim: no message is consumed without an action or a reply. The code: a message of
  digits only from a user without a pending selection is consumed by \<open>handle_follow_up\<close>
  with no call, no state change and no message; here for an idle user.
\<close>

theorem digits_while_idle_are_dropped:
  "on_message env_busy 7 ''5'' w_idle = Inr w_idle \<and> sent w_idle = [] \<and> calls w_idle = []"
proof -
  have d: "regex_digits ''5''" by code_simp
  have "storage w_idle 7 = None" by (simp add: w_idle_def)
  with d have "on_message env_busy 7 ''5'' w_idle = Inr w_idle"
    by (simp add: digits_without_selection_state)
  then show ?thesis by (simp add: w_idle_def)
qed

subsection \<open>The paths that do answer\<close>

lemma title_reply_creates_event:
  assumes "storage w chat_id = Some ctx"
    and "action ctx = Some ''awaiting_title''"
    and "chosen_time_iso ctx = Some chosen"
    and "\<not> regex_digits msg"
    and "msg \<noteq> []"
  shows "on_message e chat_id msg w =
           Inr (w\<lparr>calls := calls w @ [Create msg chosen (plus_minutes chosen 60)],
                   storage := (storage w)(chat_id := None),
                   sent := sent w @ [(chat_id, MsgConfirmado msg chosen
                                                 (link e msg chosen (plus_minutes chosen 60)))]\<rparr>)"
  using assms
  by (simp add: on_message_def handle_messages_def criar_evento_def send_message_def Let_def)

lemma invalid_selection_after_verificar:
  assumes "storage w chat_id = Some ctx"
    and "action ctx = Some ''awaiting_time_selection''"
    and "suggestions ctx = Some suggs"
    and "regex_digits msg"
    and "map_of suggs (strip msg) = None"
  shows "on_message e chat_id msg w = Inr (w\<lparr>sent := sent w @ [(chat_id, MsgOpcaoInvalida)]\<rparr>)"
  using assms regex_digits_isdigit [OF assms(4)]
  by (simp add: on_message_def handle_follow_up_def send_message_def)

lemma selection_with_action_and_summary:
  assumes "storage w chat_id = Some ctx"
    and "action ctx = Some ''awaiting_time_selection''"
    and "summary ctx = Some summ"
    and "suggestions ctx = Some suggs"
    and "regex_digits msg"
    and "map_of suggs (strip msg) = Some chosen"
  shows "on_message e chat_id msg w =
           Inr (w\<lparr>calls := calls w @ [Create summ chosen (plus_minutes chosen 60)],
                   storage := (storage w)(chat_id := None),
                   sent := sent w @ [(chat_id, MsgConfirmado summ chosen
                                                 (link e summ chosen (plus_minutes chosen 60)))]\<rparr>)"
  using assms regex_digits_isdigit [OF assms(5)]
  by (simp add: on_message_def handle_follow_up_def criar_evento_def send_message_def Let_def)

subsection \<open>Failing requests from the message entry\<close>

text \<open>The classifier call is the only collaborator call of a request whose \<open>try\<close> block raises.\<close>

lemma failing_agendar_end_to_end:
  assumes "\<not> regex_digits msg" and "msg \<noteq> []"
    and "storage w chat_id = None \<or>
         (\<exists>ctx. storage w chat_id = Some ctx \<and> action ctx \<noteq> Some ''awaiting_title'')"
    and "gemini e msg = Some d"
    and "d_action d = Some ''agendar''"
    and "agendamento_try e (d_agendamento d) = Inl err"
  shows "on_message e chat_id msg w =
           Inr (w\<lparr>calls := calls w @ [Classify msg],
                   sent := sent w @ [(chat_id, MsgErroAgendamento)]\<rparr>)"
  using assms
  by (auto simp add: on_message_def handle_messages_def decidir_e_executar_def
        analisar_e_decidir_acao_com_gemini_def decision_falsy_def execute_agendamento_def
        send_message_def)

lemma failing_verificar_end_to_end:
  assumes "\<not> regex_digits msg" and "msg \<noteq> []"
    and "storage w chat_id = None \<or>
         (\<exists>ctx. storage w chat_id = Some ctx \<and> action ctx \<noteq> Some ''awaiting_title'')"
    and "gemini e msg = Some d"
    and "d_action d = Some ''verificar''"
    and "verificacao_try e (d_agendamento d) = Inl err"
  shows "on_message e chat_id msg w =
           Inr (w\<lparr>calls := calls w @ [Classify msg],
                   sent := sent w @ [(chat_id, MsgErroVerificacao)]\<rparr>)"
  using assms
  by (auto simp add: on_message_def handle_messages_def decidir_e_executar_def
        analisar_e_decidir_acao_com_gemini_def decision_falsy_def execute_verificacao_def
        send_message_def)

subsection \<open>A reply that is a number of a label, written otherwise\<close>

text \<open>
  C5 as stated fails. The labels are looked up as strings. After the verify request of chat
  7 the labels are \<open>"1"\<close> and \<open>"2"\<close>; the reply \<open>"01"\<close> is a bare integer, its value is 1
  and 1 is a label, yet the reply is answered as an invalid option and the entry stays as it
  was: no title is awaited.
\<close>

theorem leading_zero_selection_counterexample:
  "regex_digits ''01''
   \<and> py_int ''01'' = Some 1
   \<and> str_nat 1 = ''1''
   \<and> storage w_verificar 7 = Some ctx_verificar
   \<and> action ctx_verificar = Some ''awaiting_time_selection''
   \<and> summary ctx_verificar = None
   \<and> suggestions ctx_verificar
        = Some [(''1'', plus_minutes t_1300 60), (''2'', plus_minutes t_1300 90)]
   \<and> on_message env_busy 7 ''01'' w_verificar
        = Inr (w_verificar\<lparr>sent := sent w_verificar @ [(7, MsgOpcaoInvalida)]\<rparr>)"
proof -
  have r: "regex_digits ''01''" by code_simp
  have p: "py_int ''01'' = Some 1" by code_simp
  have k: "str_nat 1 = ''1''" by code_simp
  have s: "strip ''01'' = ''01''" by code_simp
  have st: "storage w_verificar 7 = Some ctx_verificar" by (simp add: w_verificar_eq)
  have m: "map_of [(''1'', plus_minutes t_1300 60), (''2'', plus_minutes t_1300 90)] (strip ''01'') = None"
    by (simp add: s)
  have o: "on_message env_busy 7 ''01'' w_verificar
        = Inr (w_verificar\<lparr>sent := sent w_verificar @ [(7, MsgOpcaoInvalida)]\<rparr>)"
    using st _ _ r m by (rule invalid_selection_after_verificar) (simp_all add: ctx_verificar_def)
  from r p k st o show ?thesis by (simp add: ctx_verificar_def)
qed

end
